theory Spec2Isabelle
  imports Main
begin

section \<open>The Terraform provisioner (provisioner/terraform/provision.go)\<close>

text \<open>
  A shallow embedding of \<^verbatim>\<open>provision.go\<close>: the session handler \<^verbatim>\<open>Provision\<close>, the two
  artifact parsers \<^verbatim>\<open>parseTerraformPlan\<close> and \<^verbatim>\<open>parseTerraformApply\<close>, the log level
  conversion \<^verbatim>\<open>convertTerraformLogLevel\<close> and the graph walk \<^verbatim>\<open>findDirectDependencies\<close>.

  The handler talks to collaborators whose code is not part of the file: the request
  stream, the operating system, the \<^verbatim>\<open>tfexec\<close> wrapper, \<^verbatim>\<open>gographviz\<close> and
  \<^verbatim>\<open>mapstructure\<close>. What a collaborator answers is an input of the model (a field of the
  record \<open>world\<close>); what the handler asks of it is an output (an \<open>event\<close> of the trace the
  handler's own goroutine leaves). The goroutines that relay logs run beside the handler
  and are functions of their own.
\<close>

subsection \<open>Strings\<close>

type_synonym bytes = string

text \<open>\<^verbatim>\<open>strings.ToLower\<close>: a string of ASCII bytes is lowered byte by byte
  (\<^verbatim>\<open>c += 'a' - 'A'\<close> for \<^verbatim>\<open>'A' <= c && c <= 'Z'\<close>); any other string goes through the
  Unicode case tables, which are the parameter \<open>unicodeLower\<close>.\<close>

definition lowerByte :: "char \<Rightarrow> char" where
  "lowerByte c = (if (65::nat) \<le> of_char c \<and> of_char c \<le> (90::nat)
                  then char_of (of_char c + (32::nat)) else c)"

definition isASCII :: "string \<Rightarrow> bool" where
  "isASCII s = list_all (\<lambda>c. of_char c < (128::nat)) s"

definition strings_ToLower :: "(string \<Rightarrow> string) \<Rightarrow> string \<Rightarrow> string" where
  "strings_ToLower unicodeLower s = (if isASCII s then map lowerByte s else unicodeLower s)"

text \<open>\<^verbatim>\<open>strings.Trim(s, `"`)\<close>: every leading and every trailing double quote goes.\<close>

definition quote :: char where
  "quote = CHR 0x22"

definition strings_Trim :: "string \<Rightarrow> string" where
  "strings_Trim s = rev (dropWhile (\<lambda>c. c = quote) (rev (dropWhile (\<lambda>c. c = quote) s)))"

text \<open>\<^verbatim>\<open>strings.Join([]string{resource.Type, resource.Name}, ".")\<close>\<close>

definition resourceKey :: "string \<Rightarrow> string \<Rightarrow> string" where
  "resourceKey ty name = ty @ ''.'' @ name"

text \<open>\<^verbatim>\<open>fmt.Sprintf("%s=%s", name, value)\<close>\<close>

definition assignment :: "string \<Rightarrow> string \<Rightarrow> string" where
  "assignment name val = name @ ''='' @ val"

subsection \<open>Protocol messages\<close>

text \<open>Modelled from the spec: the enumerations and messages of \<^verbatim>\<open>provisionersdk/proto\<close>,
  whose declarations are outside the file. An enumeration is a number on the wire, so a
  destination scheme or a transition may be one that has no name here.\<close>

datatype logLevel = TRACE | DEBUG | INFO | WARN | ERROR

datatype parameterDestination =
    ENVIRONMENT_VARIABLE
  | PROVISIONER_VARIABLE
  | UnknownDestination int

datatype workspaceTransition = START | DESTROY | OtherTransition string

fun WorkspaceTransition_String :: "workspaceTransition \<Rightarrow> string" where
  "WorkspaceTransition_String START = ''START''"
| "WorkspaceTransition_String DESTROY = ''DESTROY''"
| "WorkspaceTransition_String (OtherTransition name) = name"

record parameterValue =
  ParameterValue_DestinationScheme :: parameterDestination
  ParameterValue_Name :: string
  ParameterValue_Value :: string

record metadata =
  Metadata_CoderUrl :: string
  Metadata_WorkspaceTransition :: workspaceTransition
  Metadata_WorkspaceName :: string
  Metadata_WorkspaceOwner :: string

text \<open>\<open>Start_Metadata\<close> is a pointer: \<open>None\<close> is nil.\<close>

record start =
  Start_Directory :: string
  Start_State :: bytes
  Start_Metadata :: "metadata option"
  Start_ParameterValues :: "parameterValue list"
  Start_DryRun :: bool

datatype request = Request_Cancel | Request_Start start | Request_Unset

record log =
  Log_Level :: logLevel
  Log_Output :: string

datatype auth = Agent_Token string | Agent_InstanceId string

record agent =
  Agent_Id :: string
  Agent_Env :: "(string \<times> string) list"
  Agent_StartupScript :: string
  Agent_Auth :: auth

record resource =
  Resource_Name :: string
  Resource_Type :: string
  Resource_Agent :: "agent option"

text \<open>\<open>Complete_Resources\<close> is a slice: \<open>None\<close> is the nil slice, \<open>Some []\<close> the one made by
  \<^verbatim>\<open>make([]*proto.Resource, 0)\<close>. An unset \<open>Complete_State\<close> or \<open>Complete_Error\<close> is the empty
  string.\<close>

record complete =
  Complete_State :: bytes
  Complete_Error :: string
  Complete_Resources :: "resource list option"

datatype response = Response_Log log | Response_Complete complete

definition len :: "'a list option \<Rightarrow> nat" where
  "len s = (case s of None \<Rightarrow> 0 | Some xs \<Rightarrow> length xs)"

subsection \<open>Errors\<close>

text \<open>An error of a collaborator is known by its text (\<^verbatim>\<open>err.Error()\<close>). The handler returns
  it as it is (\<open>Foreign\<close>) or wrapped by one of its \<^verbatim>\<open>xerrors.Errorf\<close> calls, one constructor
  each. \<open>NilDereference\<close> is the run-time panic of reading a field through a nil pointer.\<close>

type_synonym foreignError = string

datatype error =
    Foreign foreignError
  | WriteStatefile string foreignError
  | CreateExecutor foreignError
  | GetVersion foreignError
  | VersionTooOld string string
  | SetPluginCacheDir foreignError
  | InitializeTerraform foreignError
  | UnsupportedParameterType parameterDestination string
  | PlanTerraform foreignError
  | ReadFile string foreignError
  | ShowPlanFile foreignError
  | ShowStateFile string foreignError
  | Graph foreignError
  | FindDependencies error
  | DecodeAgentAttributes foreignError
  | InvalidLogLevel string
  | ParseGraph foreignError
  | AnalyzeGraph foreignError
  | NilDereference

subsection \<open>Log levels and the structured log relay\<close>

fun convertTerraformLogLevel :: "(string \<Rightarrow> string) \<Rightarrow> string \<Rightarrow> error + logLevel" where
  "convertTerraformLogLevel unicodeLower logLevel =
     (let lowered = strings_ToLower unicodeLower logLevel in
      if lowered = ''trace'' then Inr TRACE
      else if lowered = ''debug'' then Inr DEBUG
      else if lowered = ''info'' then Inr INFO
      else if lowered = ''warn'' then Inr WARN
      else if lowered = ''error'' then Inr ERROR
      else Inl (InvalidLogLevel logLevel))"

record terraformProvisionLogDiagnostic =
  Diagnostic_Severity :: string
  Diagnostic_Summary :: string
  Diagnostic_Detail :: string

record terraformProvisionLog =
  ProvisionLog_Level :: string
  ProvisionLog_Message :: string
  ProvisionLog_Diagnostic :: "terraformProvisionLogDiagnostic option"

text \<open>The goroutine of lines 134 to 175. Its input is what \<^verbatim>\<open>decoder.Decode\<close> answers, call
  after call; the end of the list is the closed pipe, where \<^verbatim>\<open>Decode\<close> fails for good. Its
  output is the responses it hands to \<^verbatim>\<open>stream.Send\<close>, in order.\<close>

fun structuredLogRelay ::
  "(string \<Rightarrow> string) \<Rightarrow> (foreignError + terraformProvisionLog) list \<Rightarrow> response list" where
  "structuredLogRelay unicodeLower [] = []"
| "structuredLogRelay unicodeLower (Inl err # decoded) = []"
| "structuredLogRelay unicodeLower (Inr l # decoded) =
     (case convertTerraformLogLevel unicodeLower (ProvisionLog_Level l) of
        Inl err \<Rightarrow> structuredLogRelay unicodeLower decoded
      | Inr logLevel \<Rightarrow>
          Response_Log \<lparr>Log_Level = logLevel, Log_Output = ProvisionLog_Message l\<rparr> #
          (case ProvisionLog_Diagnostic l of
             None \<Rightarrow> structuredLogRelay unicodeLower decoded
           | Some diagnostic \<Rightarrow>
               (case convertTerraformLogLevel unicodeLower (Diagnostic_Severity diagnostic) of
                  Inl err \<Rightarrow> structuredLogRelay unicodeLower decoded
                | Inr severity \<Rightarrow>
                    Response_Log \<lparr>Log_Level = severity,
                                  Log_Output = Diagnostic_Detail diagnostic\<rparr> #
                    structuredLogRelay unicodeLower decoded)))"

subsection \<open>The dependency graph\<close>

text \<open>The analysed graph of \<^verbatim>\<open>gographviz\<close>, with the fields the walk reads:
  \<^verbatim>\<open>graph.Nodes.Nodes\<close>, \<^verbatim>\<open>graph.Nodes.Lookup\<close>, \<^verbatim>\<open>graph.Edges.SrcToDsts\<close> and
  \<^verbatim>\<open>graph.Edges.DstToSrcs\<close>. The inner maps of the edge tables are ranged over, so they
  are lists of entries, in the order this run of \<^verbatim>\<open>range\<close> visits them.\<close>

record node =
  Node_Name :: string
  Node_Attrs :: "string \<rightharpoonup> string"

record edge =
  Edge_Src :: string
  Edge_Dst :: string

record graph =
  Nodes_Nodes :: "node list"
  Nodes_Lookup :: "string \<rightharpoonup> node"
  Edges_SrcToDsts :: "string \<rightharpoonup> (string \<times> edge list) list"
  Edges_DstToSrcs :: "string \<rightharpoonup> (string \<times> edge list) list"

text \<open>\<^verbatim>\<open>for destination := range edges\<close> (lines 492 to 503), over the keys of one edge
  table entry.\<close>

fun edgeLabels :: "graph \<Rightarrow> string list \<Rightarrow> string list" where
  "edgeLabels g [] = []"
| "edgeLabels g (destination # destinations) =
     (case Nodes_Lookup g destination of
        None \<Rightarrow> edgeLabels g destinations
      | Some dependencyNode \<Rightarrow>
          (case Node_Attrs dependencyNode ''label'' of
             None \<Rightarrow> edgeLabels g destinations
           | Some label \<Rightarrow> strings_Trim label # edgeLabels g destinations))"

text \<open>A key the outer table lacks gives the nil map, which \<^verbatim>\<open>range\<close> walks as empty.\<close>

definition rangeKeys :: "(string \<rightharpoonup> (string \<times> edge list) list) \<Rightarrow> string \<Rightarrow> string list" where
  "rangeKeys table name = (case table name of None \<Rightarrow> [] | Some edges \<Rightarrow> map fst edges)"

definition dependencies :: "graph \<Rightarrow> node \<Rightarrow> string list" where
  "dependencies g n =
     edgeLabels g (rangeKeys (Edges_SrcToDsts g) (Node_Name n)) @
     edgeLabels g (rangeKeys (Edges_DstToSrcs g) (Node_Name n))"

text \<open>\<^verbatim>\<open>for _, node := range graph.Nodes.Nodes\<close> (lines 480 to 506), \<open>direct\<close> being the map
  built so far.\<close>

fun directLoop ::
  "graph \<Rightarrow> node list \<Rightarrow> (string \<rightharpoonup> string list) \<Rightarrow> (string \<rightharpoonup> string list)" where
  "directLoop g [] direct = direct"
| "directLoop g (n # nodes) direct =
     (case Node_Attrs n ''label'' of
        None \<Rightarrow> directLoop g nodes direct
      | Some label \<Rightarrow> directLoop g nodes (direct(strings_Trim label \<mapsto> dependencies g n)))"

text \<open>\<^verbatim>\<open>gographviz.ParseString\<close> and \<^verbatim>\<open>gographviz.NewAnalysedGraph\<close> are parameters.\<close>

definition findDirectDependencies ::
  "(string \<Rightarrow> foreignError + 'ast) \<Rightarrow> ('ast \<Rightarrow> foreignError + graph) \<Rightarrow> string
   \<Rightarrow> error + (string \<rightharpoonup> string list)" where
  "findDirectDependencies ParseString NewAnalysedGraph rawGraph =
     (case ParseString rawGraph of
        Inl err \<Rightarrow> Inl (ParseGraph err)
      | Inr parsedGraph \<Rightarrow>
          (case NewAnalysedGraph parsedGraph of
             Inl err \<Rightarrow> Inl (AnalyzeGraph err)
           | Inr g \<Rightarrow> Inr (directLoop g (Nodes_Nodes g) Map.empty)))"

text \<open>The stripped label of a node, and the nodes one edge away from it, for stating what
  the walk computes.\<close>

definition nodeLabel :: "node \<Rightarrow> string option" where
  "nodeLabel n = map_option strings_Trim (Node_Attrs n ''label'')"

definition adjacent :: "graph \<Rightarrow> node \<Rightarrow> string set" where
  "adjacent g n =
     set (rangeKeys (Edges_SrcToDsts g) (Node_Name n)) \<union>
     set (rangeKeys (Edges_DstToSrcs g) (Node_Name n))"

subsection \<open>Plan and state artifacts\<close>

text \<open>The \<^verbatim>\<open>tfjson\<close> structures, with the fields the parsers read. A field behind a pointer
  is an option (\<open>None\<close> is nil). The dynamic type of \<^verbatim>\<open>ConstantValue\<close> is one of the two the
  parser asserts, or another. The attribute values of a state resource are decoded by
  \<^verbatim>\<open>mapstructure\<close> only, so their type is a parameter. Entries of slices and maps are taken
  to be non-nil.\<close>

datatype constantValue =
    StringValue string
  | StringMapValue "(string \<times> string) list"
  | OtherValue

record expression =
  Expression_ConstantValue :: constantValue

record configResource =
  ConfigResource_Address :: string
  ConfigResource_Type :: string
  ConfigResource_Name :: string
  ConfigResource_Expressions :: "string \<rightharpoonup> expression"

record configModule =
  ConfigModule_Resources :: "configResource list"

record config =
  Config_RootModule :: "configModule option"

record 'a stateResource =
  StateResource_Address :: string
  StateResource_Type :: string
  StateResource_Name :: string
  StateResource_AttributeValues :: 'a

record 'a stateModule =
  StateModule_Resources :: "'a stateResource list"

record 'a stateValues =
  StateValues_RootModule :: "'a stateModule option"

record 'a plan =
  Plan_Config :: "config option"
  Plan_PlannedValues :: "'a stateValues option"

record 'a state =
  State_Values :: "'a stateValues option"

record agentAttributes =
  Attrs_ID :: string
  Attrs_Token :: string
  Attrs_InstanceID :: string
  Attrs_Env :: "(string \<times> string) list"
  Attrs_StartupScript :: string

text \<open>\<^verbatim>\<open>plan.Config.RootModule.Resources\<close> and its like: \<open>None\<close> when a pointer on the way
  is nil.\<close>

definition configResources :: "'a plan \<Rightarrow> configResource list option" where
  "configResources p =
     (case Plan_Config p of
        None \<Rightarrow> None
      | Some c \<Rightarrow> map_option ConfigModule_Resources (Config_RootModule c))"

definition valuesResources :: "'a stateValues \<Rightarrow> 'a stateResource list option" where
  "valuesResources v = map_option StateModule_Resources (StateValues_RootModule v)"

definition plannedResources :: "'a plan \<Rightarrow> 'a stateResource list option" where
  "plannedResources p =
     (case Plan_PlannedValues p of None \<Rightarrow> None | Some v \<Rightarrow> valuesResources v)"

subsection \<open>The correlator\<close>

text \<open>The agent a plan describes (lines 285 to 306).\<close>

definition planAgent :: "configResource \<Rightarrow> agent" where
  "planAgent r =
     (let agent0 = \<lparr>Agent_Id = [], Agent_Env = [], Agent_StartupScript = [],
                    Agent_Auth = Agent_Token []\<rparr>;
          agent1 = (case ConfigResource_Expressions r ''env'' of
                      None \<Rightarrow> agent0
                    | Some envRaw \<Rightarrow>
                        (case Expression_ConstantValue envRaw of
                           StringMapValue env \<Rightarrow> agent0\<lparr>Agent_Env := env\<rparr>
                         | _ \<Rightarrow> agent0));
          agent2 = (case ConfigResource_Expressions r ''startup_script'' of
                      None \<Rightarrow> agent1
                    | Some startupScriptRaw \<Rightarrow>
                        (case Expression_ConstantValue startupScriptRaw of
                           StringValue startupScript \<Rightarrow>
                             agent1\<lparr>Agent_StartupScript := startupScript\<rparr>
                         | _ \<Rightarrow> agent1))
      in (case ConfigResource_Expressions r ''instance_id'' of
            None \<Rightarrow> agent2
          | Some _ \<Rightarrow> agent2\<lparr>Agent_Auth := Agent_InstanceId []\<rparr>))"

text \<open>\<^verbatim>\<open>for _, resource := range plan.Config.RootModule.Resources\<close> (lines 281 to 309).\<close>

fun planAgents :: "configResource list \<Rightarrow> (string \<rightharpoonup> agent) \<Rightarrow> (string \<rightharpoonup> agent)" where
  "planAgents [] agents = agents"
| "planAgents (r # resources) agents =
     (if ConfigResource_Type r \<noteq> ''coder_agent'' then planAgents resources agents
      else planAgents resources (agents(ConfigResource_Address r \<mapsto> planAgent r)))"

text \<open>The agent a state describes (lines 383 to 395), from its decoded attributes.\<close>

definition applyAgent :: "agentAttributes \<Rightarrow> agent" where
  "applyAgent attrs =
     (let agent0 = \<lparr>Agent_Id = Attrs_ID attrs, Agent_Env = Attrs_Env attrs,
                    Agent_StartupScript = Attrs_StartupScript attrs,
                    Agent_Auth = Agent_Token (Attrs_Token attrs)\<rparr>
      in if Attrs_InstanceID attrs \<noteq> []
         then agent0\<lparr>Agent_Auth := Agent_InstanceId (Attrs_InstanceID attrs)\<rparr>
         else agent0)"

text \<open>The first loop over \<^verbatim>\<open>state.Values.RootModule.Resources\<close> (lines 374 to 398);
  \<^verbatim>\<open>mapstructure.Decode\<close> into \<^verbatim>\<open>agentAttributes\<close> is the parameter \<open>Decode\<close>.\<close>

fun applyAgents ::
  "('a \<Rightarrow> foreignError + agentAttributes) \<Rightarrow> 'a stateResource list \<Rightarrow> (string \<rightharpoonup> agent)
   \<Rightarrow> error + (string \<rightharpoonup> agent)" where
  "applyAgents Decode [] agents = Inr agents"
| "applyAgents Decode (r # resources) agents =
     (if StateResource_Type r \<noteq> ''coder_agent'' then applyAgents Decode resources agents
      else (case Decode (StateResource_AttributeValues r) of
              Inl err \<Rightarrow> Inl (DecodeAgentAttributes err)
            | Inr attrs \<Rightarrow>
                applyAgents Decode resources
                  (agents(resourceKey (StateResource_Type r) (StateResource_Name r)
                          \<mapsto> applyAgent attrs))))"

text \<open>\<^verbatim>\<open>for _, dep := range resourceNode\<close> (lines 321 to 327 and 411 to 417): the agent is
  that of the first dependency the table knows, nil when the slice runs out.\<close>

fun findAgent :: "(string \<rightharpoonup> agent) \<Rightarrow> string list \<Rightarrow> agent option" where
  "findAgent agents [] = None"
| "findAgent agents (dep # deps) =
     (case agents dep of Some a \<Rightarrow> Some a | None \<Rightarrow> findAgent agents deps)"

text \<open>The loop that builds \<^verbatim>\<open>resources\<close>, the same statements over the planned values
  (lines 310 to 334) and over the state values (lines 400 to 424).\<close>

fun associate ::
  "(string \<rightharpoonup> string list) \<Rightarrow> (string \<rightharpoonup> agent) \<Rightarrow> 'a stateResource list \<Rightarrow> resource list" where
  "associate resourceDependencies agents [] = []"
| "associate resourceDependencies agents (r # resources) =
     (if StateResource_Type r = ''coder_agent''
      then associate resourceDependencies agents resources
      else (case resourceDependencies
                   (resourceKey (StateResource_Type r) (StateResource_Name r)) of
              None \<Rightarrow> associate resourceDependencies agents resources
            | Some resourceNode \<Rightarrow>
                \<lparr>Resource_Name = StateResource_Name r, Resource_Type = StateResource_Type r,
                 Resource_Agent = findAgent agents resourceNode\<rparr> #
                associate resourceDependencies agents resources))"

subsection \<open>The collaborators\<close>

text \<open>The child process as \<^verbatim>\<open>exec.CommandContext\<close> and the assignments after it set it up.\<close>

record command =
  Cmd_Path :: string
  Cmd_Args :: "string list"
  Cmd_Env :: "string list"
  Cmd_Dir :: string

text \<open>What \<^verbatim>\<open>os/exec\<close> makes of \<^verbatim>\<open>cmd.Env\<close>, as its documentation has it: when the slice
  holds entries with the same key, the child gets only the last of them. The key of an
  entry is what stands before its first \<open>=\<close>; an entry without \<open>=\<close> has no key and is
  passed on. The order of the entries that are left plays no part.\<close>

definition envKey :: "string \<Rightarrow> string option" where
  "envKey kv = (if CHR ''='' \<in> set kv then Some (takeWhile (\<lambda>c. c \<noteq> CHR ''='') kv) else None)"

fun childEnvironment :: "string list \<Rightarrow> string list" where
  "childEnvironment [] = []"
| "childEnvironment (kv # later) =
     (if envKey kv \<noteq> None \<and> envKey kv \<in> set (map envKey later)
      then childEnvironment later
      else kv # childEnvironment later)"

text \<open>What the handler's goroutine asks of its collaborators, in the order it asks.\<close>

datatype event =
    Call_WriteFile string bytes
  | Call_Version
  | Call_Init
  | Call_Run command
  | Call_ReadFile string
  | Call_ShowPlanFile string
  | Call_ShowStateFile string
  | Call_Graph
  | Call_Send response

text \<open>
  One session's surroundings. The fields \<open>lib_\<close> are functions of libraries
  (\<^verbatim>\<open>strings\<close>, \<^verbatim>\<open>filepath\<close>, \<^verbatim>\<open>gographviz\<close>, \<^verbatim>\<open>mapstructure\<close>, \<^verbatim>\<open>go-version\<close>);
  \<open>minimumTerraformVersion\<close> is the package's constant, declared in another file; the
  fields \<open>t_\<close> are those of the receiver. The others are what a call answers in this
  session: an error is \<open>Inl\<close> or \<open>Some\<close> of its text. \<open>os_ReadFile\<close> is read after the engine has
  run. \<open>shutdown_Err\<close> says whether \<^verbatim>\<open>shutdown.Err()\<close> is non-nil when the handler reads it,
  which is how the goroutine that listens for a cancel request reaches the handler.
\<close>

record ('v, 'ast, 'a) world =
  lib_unicodeLower :: "string \<Rightarrow> string"
  lib_Join :: "string \<Rightarrow> string \<Rightarrow> string"
  lib_ParseString :: "string \<Rightarrow> foreignError + 'ast"
  lib_NewAnalysedGraph :: "'ast \<Rightarrow> foreignError + graph"
  lib_Decode :: "'a \<Rightarrow> foreignError + agentAttributes"
  lib_GreaterThanOrEqual :: "'v \<Rightarrow> 'v \<Rightarrow> bool"
  lib_VersionString :: "'v \<Rightarrow> string"
  minimumTerraformVersion :: 'v
  t_binaryPath :: string
  t_cachePath :: string
  stream_Recv :: "foreignError + request"
  stream_Send :: "response \<Rightarrow> foreignError option"
  os_WriteFile :: "string \<Rightarrow> bytes \<Rightarrow> foreignError option"
  os_Environ :: "string list"
  os_ReadFile :: "string \<Rightarrow> foreignError + bytes"
  sdk_AgentScriptEnv :: "(string \<times> string) list"
  tfexec_NewTerraform :: "string \<Rightarrow> string \<Rightarrow> foreignError option"
  tf_Version :: "foreignError + 'v"
  tf_SetEnv :: "foreignError option"
  tf_Init :: "foreignError option"
  tf_ShowPlanFile :: "string \<Rightarrow> foreignError + 'a plan"
  tf_ShowStateFile :: "string \<Rightarrow> foreignError + 'a state"
  tf_Graph :: "foreignError + string"
  cmd_Run :: "command \<Rightarrow> foreignError option"
  shutdown_Err :: bool

subsection \<open>The parsers\<close>

definition parseTerraformPlan ::
  "('v, 'ast, 'a) world \<Rightarrow> string \<Rightarrow> event list \<times> (error + response)" where
  "parseTerraformPlan w planfilePath =
     (case tf_ShowPlanFile w planfilePath of
        Inl err \<Rightarrow> ([Call_ShowPlanFile planfilePath], Inl (ShowPlanFile err))
      | Inr p \<Rightarrow>
     (case tf_Graph w of
        Inl err \<Rightarrow> ([Call_ShowPlanFile planfilePath, Call_Graph], Inl (Graph err))
      | Inr rawGraph \<Rightarrow>
     (case findDirectDependencies (lib_ParseString w) (lib_NewAnalysedGraph w) rawGraph of
        Inl err \<Rightarrow> ([Call_ShowPlanFile planfilePath, Call_Graph], Inl (FindDependencies err))
      | Inr resourceDependencies \<Rightarrow>
     (case configResources p of
        None \<Rightarrow> ([Call_ShowPlanFile planfilePath, Call_Graph], Inl NilDereference)
      | Some configured \<Rightarrow>
     (case plannedResources p of
        None \<Rightarrow> ([Call_ShowPlanFile planfilePath, Call_Graph], Inl NilDereference)
      | Some planned \<Rightarrow>
          ([Call_ShowPlanFile planfilePath, Call_Graph],
           Inr (Response_Complete
                  \<lparr>Complete_State = [], Complete_Error = [],
                   Complete_Resources =
                     Some (associate resourceDependencies
                             (planAgents configured Map.empty) planned)\<rparr>)))))))"

definition parseTerraformApply ::
  "('v, 'ast, 'a) world \<Rightarrow> string \<Rightarrow> event list \<times> (error + response)" where
  "parseTerraformApply w statefilePath =
     (case os_ReadFile w statefilePath of
        Inl err \<Rightarrow> ([Call_ReadFile statefilePath], Inl (ReadFile statefilePath err))
      | Inr statefileContent \<Rightarrow>
     (case tf_ShowStateFile w statefilePath of
        Inl err \<Rightarrow>
          ([Call_ReadFile statefilePath, Call_ShowStateFile statefilePath],
           Inl (ShowStateFile statefilePath err))
      | Inr st \<Rightarrow>
     (case State_Values st of
        None \<Rightarrow>
          ([Call_ReadFile statefilePath, Call_ShowStateFile statefilePath],
           Inr (Response_Complete
                  \<lparr>Complete_State = statefileContent, Complete_Error = [],
                   Complete_Resources = Some []\<rparr>))
      | Some values \<Rightarrow>
     (case tf_Graph w of
        Inl err \<Rightarrow>
          ([Call_ReadFile statefilePath, Call_ShowStateFile statefilePath, Call_Graph],
           Inl (Graph err))
      | Inr rawGraph \<Rightarrow>
     (case findDirectDependencies (lib_ParseString w) (lib_NewAnalysedGraph w) rawGraph of
        Inl err \<Rightarrow>
          ([Call_ReadFile statefilePath, Call_ShowStateFile statefilePath, Call_Graph],
           Inl (FindDependencies err))
      | Inr resourceDependencies \<Rightarrow>
     (case valuesResources values of
        None \<Rightarrow>
          ([Call_ReadFile statefilePath, Call_ShowStateFile statefilePath, Call_Graph],
           Inl NilDereference)
      | Some listed \<Rightarrow>
     (case applyAgents (lib_Decode w) listed Map.empty of
        Inl err \<Rightarrow>
          ([Call_ReadFile statefilePath, Call_ShowStateFile statefilePath, Call_Graph],
           Inl err)
      | Inr agents \<Rightarrow>
          ([Call_ReadFile statefilePath, Call_ShowStateFile statefilePath, Call_Graph],
           Inr (Response_Complete
                  \<lparr>Complete_State = statefileContent, Complete_Error = [],
                   Complete_Resources =
                     Some (associate resourceDependencies agents listed)\<rparr>)))))))))"

subsection \<open>The session\<close>

text \<open>The environment of the child before the parameters (lines 108 to 117).\<close>

definition engineEnv :: "('v, 'ast, 'a) world \<Rightarrow> metadata \<Rightarrow> string list" where
  "engineEnv w md =
     os_Environ w @
     [''CODER_URL='' @ Metadata_CoderUrl md,
      ''CODER_WORKSPACE_TRANSITION='' @
        strings_ToLower (lib_unicodeLower w)
          (WorkspaceTransition_String (Metadata_WorkspaceTransition md)),
      ''CODER_WORKSPACE_NAME='' @ Metadata_WorkspaceName md,
      ''CODER_WORKSPACE_OWNER='' @ Metadata_WorkspaceOwner md] @
     map (\<lambda>(key, val). key @ ''='' @ val) (sdk_AgentScriptEnv w)"

text \<open>\<^verbatim>\<open>for _, param := range start.ParameterValues\<close> (lines 119 to 128), \<open>env\<close> and \<open>vars\<close>
  being the slices built so far.\<close>

fun parameterLoop ::
  "parameterValue list \<Rightarrow> string list \<Rightarrow> string list \<Rightarrow> error + (string list \<times> string list)" where
  "parameterLoop [] env vars = Inr (env, vars)"
| "parameterLoop (param # params) env vars =
     (case ParameterValue_DestinationScheme param of
        ENVIRONMENT_VARIABLE \<Rightarrow>
          parameterLoop params
            (env @ [assignment (ParameterValue_Name param) (ParameterValue_Value param)]) vars
      | PROVISIONER_VARIABLE \<Rightarrow>
          parameterLoop params env
            (vars @ [assignment (ParameterValue_Name param) (ParameterValue_Value param)])
      | UnknownDestination n \<Rightarrow>
          Inl (UnsupportedParameterType (UnknownDestination n) (ParameterValue_Name param)))"

text \<open>The argument list (lines 177 to 203).\<close>

definition engineArgs :: "bool \<Rightarrow> string \<Rightarrow> workspaceTransition \<Rightarrow> string list \<Rightarrow> string list" where
  "engineArgs dryRun planfilePath transition vars =
     (if dryRun
      then [''plan'', ''-no-color'', ''-input=false'', ''-json'', ''-refresh=true'',
            ''-out='' @ planfilePath]
      else [''apply'', ''-no-color'', ''-auto-approve'', ''-input=false'', ''-json'',
            ''-refresh=true'']) @
     (if transition = DESTROY then [''-destroy''] else []) @
     concat (map (\<lambda>variable. [''-var'', variable]) vars)"

text \<open>After \<^verbatim>\<open>cmd.Run()\<close> has returned \<open>runErr\<close> (lines 218 to 259).\<close>

definition Provision_finish ::
  "('v, 'ast, 'a) world \<Rightarrow> start \<Rightarrow> string \<Rightarrow> string \<Rightarrow> foreignError option
   \<Rightarrow> event list \<times> error option" where
  "Provision_finish w st statefilePath planfilePath runErr =
     (case runErr of
        Some err \<Rightarrow>
          (if Start_DryRun st
           then (if shutdown_Err w
                 then (let resp = Response_Complete
                                    \<lparr>Complete_State = [], Complete_Error = err,
                                     Complete_Resources = None\<rparr>
                       in ([Call_Send resp], map_option Foreign (stream_Send w resp)))
                 else ([], Some (PlanTerraform err)))
           else (case os_ReadFile w statefilePath of
                   Inl readErr \<Rightarrow>
                     ([Call_ReadFile statefilePath], Some (ReadFile statefilePath readErr))
                 | Inr statefileContent \<Rightarrow>
                     (let resp = Response_Complete
                                   \<lparr>Complete_State = statefileContent, Complete_Error = err,
                                    Complete_Resources = None\<rparr>
                      in ([Call_ReadFile statefilePath, Call_Send resp],
                          map_option Foreign (stream_Send w resp)))))
      | None \<Rightarrow>
          (case (if Start_DryRun st then parseTerraformPlan w planfilePath
                 else parseTerraformApply w statefilePath) of
             (events, Inl err) \<Rightarrow> (events, Some err)
           | (events, Inr resp) \<Rightarrow>
               (events @ [Call_Send resp], map_option Foreign (stream_Send w resp))))"

text \<open>From the environment to the run of the child (lines 108 to 217). The working
  directory of the executor is the directory it was made for.\<close>

definition Provision_engine ::
  "('v, 'ast, 'a) world \<Rightarrow> start \<Rightarrow> string \<Rightarrow> event list \<times> error option" where
  "Provision_engine w st statefilePath =
     (case Start_Metadata st of
        None \<Rightarrow> ([], Some NilDereference)
      | Some md \<Rightarrow>
          (case parameterLoop (Start_ParameterValues st) (engineEnv w md) [] of
             Inl err \<Rightarrow> ([], Some err)
           | Inr (env, vars) \<Rightarrow>
               (let planfilePath = lib_Join w (Start_Directory st) ''terraform.tfplan'';
                    cmd = \<lparr>Cmd_Path = t_binaryPath w,
                           Cmd_Args = engineArgs (Start_DryRun st) planfilePath
                                        (Metadata_WorkspaceTransition md) vars,
                           Cmd_Env = env, Cmd_Dir = Start_Directory st\<rparr>;
                    finish = Provision_finish w st statefilePath planfilePath (cmd_Run w cmd)
                in (Call_Run cmd # fst finish, snd finish))))"

text \<open>The handler: the trace of its goroutine and what it returns (\<open>None\<close> is nil).\<close>

definition Provision :: "('v, 'ast, 'a) world \<Rightarrow> event list \<times> error option" where
  "Provision w =
     (case stream_Recv w of
        Inl err \<Rightarrow> ([], Some (Foreign err))
      | Inr request \<Rightarrow>
     (case request of
        Request_Cancel \<Rightarrow> ([], None)
      | Request_Unset \<Rightarrow> ([], None)
      | Request_Start st \<Rightarrow>
          (let statefilePath = lib_Join w (Start_Directory st) ''terraform.tfstate'';
               written = (if length (Start_State st) > 0
                          then [Call_WriteFile statefilePath (Start_State st)] else [])
           in
     (case (if length (Start_State st) > 0
            then os_WriteFile w statefilePath (Start_State st) else None) of
        Some err \<Rightarrow> (written, Some (WriteStatefile statefilePath err))
      | None \<Rightarrow>
     (case tfexec_NewTerraform w (Start_Directory st) (t_binaryPath w) of
        Some err \<Rightarrow> (written, Some (CreateExecutor err))
      | None \<Rightarrow>
     (case tf_Version w of
        Inl err \<Rightarrow> (written @ [Call_Version], Some (GetVersion err))
      | Inr version \<Rightarrow>
          if \<not> lib_GreaterThanOrEqual w version (minimumTerraformVersion w)
          then (written @ [Call_Version],
                Some (VersionTooOld (lib_VersionString w version)
                        (lib_VersionString w (minimumTerraformVersion w))))
          else
     (case (if t_cachePath w \<noteq> [] then tf_SetEnv w else None) of
        Some err \<Rightarrow> (written @ [Call_Version], Some (SetPluginCacheDir err))
      | None \<Rightarrow>
     (case tf_Init w of
        Some err \<Rightarrow> (written @ [Call_Version, Call_Init], Some (InitializeTerraform err))
      | None \<Rightarrow>
          (let engine = Provision_engine w st statefilePath
           in (written @ [Call_Version, Call_Init] @ fst engine, snd engine))))))))))"

text \<open>The goroutine of lines 77 to 89: every line the engine writes while it initialises
  is relayed at the level \<open>DEBUG\<close>.\<close>

definition rawLogRelay :: "string list \<Rightarrow> response list" where
  "rawLogRelay scanned =
     map (\<lambda>line. Response_Log \<lparr>Log_Level = DEBUG, Log_Output = line\<rparr>) scanned"

subsection \<open>Words for the properties\<close>

text \<open>A capitalization of a word: the same bytes, each ASCII letter in either case.\<close>

definition upperByte :: "char \<Rightarrow> char" where
  "upperByte d = (if (97::nat) \<le> of_char d \<and> of_char d \<le> (122::nat)
                  then char_of (of_char d - (32::nat)) else d)"

definition capitalizationOf :: "string \<Rightarrow> string \<Rightarrow> bool" where
  "capitalizationOf s w = list_all2 (\<lambda>c d. c = d \<or> c = upperByte d) s w"

definition lowerWord :: "string \<Rightarrow> bool" where
  "lowerWord w = list_all (\<lambda>d. of_char d < (128::nat) \<and>
                                \<not> ((65::nat) \<le> of_char d \<and> of_char d \<le> (90::nat))) w"

definition levelNames :: "string set" where
  "levelNames = {''trace'', ''debug'', ''info'', ''warn'', ''error''}"

text \<open>The two files of a session, and the calls the handler makes before it runs the
  engine command: the prior state written when there is one, the version asked, the
  working directory initialised.\<close>

definition statefile :: "('v, 'ast, 'a) world \<Rightarrow> start \<Rightarrow> string" where
  "statefile w st = lib_Join w (Start_Directory st) ''terraform.tfstate''"

definition planfile :: "('v, 'ast, 'a) world \<Rightarrow> start \<Rightarrow> string" where
  "planfile w st = lib_Join w (Start_Directory st) ''terraform.tfplan''"

definition prelude :: "('v, 'ast, 'a) world \<Rightarrow> start \<Rightarrow> event list" where
  "prelude w st =
     (if length (Start_State st) > 0 then [Call_WriteFile (statefile w st) (Start_State st)] else []) @
     [Call_Version, Call_Init]"

text \<open>The steps before the environment is built (lines 54 to 106) all succeed: the prior
  state is written when there is one, the executor is made, the version is read and is not
  below the minimum, the plugin cache is set when one is configured, and the working
  directory is initialised.\<close>

definition initialised :: "('v, 'ast, 'a) world \<Rightarrow> start \<Rightarrow> bool" where
  "initialised w st =
     ((length (Start_State st) > 0 \<longrightarrow>
         os_WriteFile w (statefile w st) (Start_State st) = None) \<and>
      tfexec_NewTerraform w (Start_Directory st) (t_binaryPath w) = None \<and>
      (case tf_Version w of
         Inl err \<Rightarrow> False
       | Inr version \<Rightarrow> lib_GreaterThanOrEqual w version (minimumTerraformVersion w)) \<and>
      (t_cachePath w \<noteq> [] \<longrightarrow> tf_SetEnv w = None) \<and>
      tf_Init w = None)"

text \<open>What the parameters of a request add to the environment and to the variables, and
  the destination schemes the handler knows.\<close>

definition toEnvironment :: "parameterValue list \<Rightarrow> string list" where
  "toEnvironment params =
     map (\<lambda>p. assignment (ParameterValue_Name p) (ParameterValue_Value p))
       (filter (\<lambda>p. ParameterValue_DestinationScheme p = ENVIRONMENT_VARIABLE) params)"

definition toVariables :: "parameterValue list \<Rightarrow> string list" where
  "toVariables params =
     map (\<lambda>p. assignment (ParameterValue_Name p) (ParameterValue_Value p))
       (filter (\<lambda>p. ParameterValue_DestinationScheme p = PROVISIONER_VARIABLE) params)"

definition recognized :: "parameterValue \<Rightarrow> bool" where
  "recognized p = (ParameterValue_DestinationScheme p = ENVIRONMENT_VARIABLE \<or>
                   ParameterValue_DestinationScheme p = PROVISIONER_VARIABLE)"

text \<open>The correlation in the words of the specification: the agent of the first dependency,
  in the order of the list, that the agent table knows; one resource for each listed
  resource that is not an agent and whose key the dependency map holds.\<close>

definition firstResolved :: "(string \<rightharpoonup> agent) \<Rightarrow> string list \<Rightarrow> agent option" where
  "firstResolved agents deps =
     (case List.find (\<lambda>dep. agents dep \<noteq> None) deps of
        None \<Rightarrow> None
      | Some dep \<Rightarrow> agents dep)"

definition correlated ::
  "(string \<rightharpoonup> string list) \<Rightarrow> (string \<rightharpoonup> agent) \<Rightarrow> 'a stateResource list \<Rightarrow> resource list" where
  "correlated resourceDependencies agents listed =
     List.map_filter
       (\<lambda>r. if StateResource_Type r = ''coder_agent'' then None
            else map_option
                   (\<lambda>deps. \<lparr>Resource_Name = StateResource_Name r,
                            Resource_Type = StateResource_Type r,
                            Resource_Agent = firstResolved agents deps\<rparr>)
                   (resourceDependencies
                      (resourceKey (StateResource_Type r) (StateResource_Name r))))
       listed"

subsection \<open>A sample session\<close>

text \<open>A graph of three nodes, \<open>root \<rightarrow> web \<rightarrow> dev\<close>, the root without a label; labels
  come quoted, as \<^verbatim>\<open>gographviz\<close> keeps them.\<close>

definition quoted :: "string \<Rightarrow> string" where
  "quoted s = quote # s @ [quote]"

definition webNode :: node where
  "webNode = \<lparr>Node_Name = ''[root] null_resource.web'',
              Node_Attrs = [''label'' \<mapsto> quoted ''null_resource.web'']\<rparr>"

definition devNode :: node where
  "devNode = \<lparr>Node_Name = ''[root] coder_agent.dev'',
              Node_Attrs = [''label'' \<mapsto> quoted ''coder_agent.dev'']\<rparr>"

definition rootNode :: node where
  "rootNode = \<lparr>Node_Name = ''[root] root'', Node_Attrs = Map.empty\<rparr>"

definition sampleGraph :: graph where
  "sampleGraph =
     \<lparr>Nodes_Nodes = [webNode, devNode, rootNode],
      Nodes_Lookup = [''[root] null_resource.web'' \<mapsto> webNode,
                      ''[root] coder_agent.dev'' \<mapsto> devNode,
                      ''[root] root'' \<mapsto> rootNode],
      Edges_SrcToDsts =
        [''[root] null_resource.web'' \<mapsto>
           [(''[root] coder_agent.dev'',
             [\<lparr>Edge_Src = ''[root] null_resource.web'', Edge_Dst = ''[root] coder_agent.dev''\<rparr>])],
         ''[root] root'' \<mapsto>
           [(''[root] null_resource.web'',
             [\<lparr>Edge_Src = ''[root] root'', Edge_Dst = ''[root] null_resource.web''\<rparr>])]],
      Edges_DstToSrcs =
        [''[root] coder_agent.dev'' \<mapsto>
           [(''[root] null_resource.web'',
             [\<lparr>Edge_Src = ''[root] null_resource.web'', Edge_Dst = ''[root] coder_agent.dev''\<rparr>])],
         ''[root] null_resource.web'' \<mapsto>
           [(''[root] root'',
             [\<lparr>Edge_Src = ''[root] root'', Edge_Dst = ''[root] null_resource.web''\<rparr>])]]\<rparr>"

definition sampleDot :: string where
  "sampleDot =
     ''digraph { '' @
     quoted ''[root] null_resource.web'' @ '' [label = '' @ quoted ''null_resource.web'' @ '']; '' @
     quoted ''[root] coder_agent.dev'' @ '' [label = '' @ quoted ''coder_agent.dev'' @ '']; '' @
     quoted ''[root] null_resource.web'' @ '' -> '' @ quoted ''[root] coder_agent.dev'' @ ''; '' @
     quoted ''[root] root'' @ '' -> '' @ quoted ''[root] null_resource.web'' @ ''; }''"

text \<open>A graph in which two nodes carry the same label: \<open>first \<rightarrow> other\<close>, and \<open>second\<close>
  on its own.\<close>

definition clashDot :: string where
  "clashDot =
     ''digraph { first [label=x]; second [label=x]; other [label=c]; first -> other; }''"

definition firstNode :: node where
  "firstNode = \<lparr>Node_Name = ''first'', Node_Attrs = [''label'' \<mapsto> ''x'']\<rparr>"

definition secondNode :: node where
  "secondNode = \<lparr>Node_Name = ''second'', Node_Attrs = [''label'' \<mapsto> ''x'']\<rparr>"

definition otherNode :: node where
  "otherNode = \<lparr>Node_Name = ''other'', Node_Attrs = [''label'' \<mapsto> ''c'']\<rparr>"

definition clashGraph :: graph where
  "clashGraph =
     \<lparr>Nodes_Nodes = [firstNode, secondNode, otherNode],
      Nodes_Lookup = [''first'' \<mapsto> firstNode, ''second'' \<mapsto> secondNode,
                      ''other'' \<mapsto> otherNode],
      Edges_SrcToDsts =
        [''first'' \<mapsto> [(''other'', [\<lparr>Edge_Src = ''first'', Edge_Dst = ''other''\<rparr>])]],
      Edges_DstToSrcs =
        [''other'' \<mapsto> [(''first'', [\<lparr>Edge_Src = ''first'', Edge_Dst = ''other''\<rparr>])]]\<rparr>"

text \<open>A request to destroy a workspace with three parameters, the artifacts of its engine,
  and surroundings in which every call succeeds.\<close>

definition sampleMetadata :: metadata where
  "sampleMetadata =
     \<lparr>Metadata_CoderUrl = ''https://coder.test'', Metadata_WorkspaceTransition = DESTROY,
      Metadata_WorkspaceName = ''dev'', Metadata_WorkspaceOwner = ''kim''\<rparr>"

definition sampleStart :: start where
  "sampleStart =
     \<lparr>Start_Directory = ''/work'', Start_State = ''old'',
      Start_Metadata = Some sampleMetadata,
      Start_ParameterValues =
        [\<lparr>ParameterValue_DestinationScheme = ENVIRONMENT_VARIABLE,
          ParameterValue_Name = ''REGION'', ParameterValue_Value = ''eu''\<rparr>,
         \<lparr>ParameterValue_DestinationScheme = PROVISIONER_VARIABLE,
          ParameterValue_Name = ''size'', ParameterValue_Value = ''large''\<rparr>,
         \<lparr>ParameterValue_DestinationScheme = PROVISIONER_VARIABLE,
          ParameterValue_Name = ''zone'', ParameterValue_Value = ''b''\<rparr>],
      Start_DryRun = False\<rparr>"

definition sampleAttributes :: agentAttributes where
  "sampleAttributes =
     \<lparr>Attrs_ID = ''a1'', Attrs_Token = ''secret'', Attrs_InstanceID = [],
      Attrs_Env = [], Attrs_StartupScript = ''echo hello''\<rparr>"

definition noAttributes :: agentAttributes where
  "noAttributes =
     \<lparr>Attrs_ID = [], Attrs_Token = [], Attrs_InstanceID = [],
      Attrs_Env = [], Attrs_StartupScript = []\<rparr>"

definition sampleListing :: "agentAttributes stateResource list" where
  "sampleListing =
     [\<lparr>StateResource_Address = ''coder_agent.dev'', StateResource_Type = ''coder_agent'',
       StateResource_Name = ''dev'', StateResource_AttributeValues = sampleAttributes\<rparr>,
      \<lparr>StateResource_Address = ''null_resource.web'', StateResource_Type = ''null_resource'',
       StateResource_Name = ''web'', StateResource_AttributeValues = noAttributes\<rparr>,
      \<lparr>StateResource_Address = ''null_resource.lone'', StateResource_Type = ''null_resource'',
       StateResource_Name = ''lone'', StateResource_AttributeValues = noAttributes\<rparr>]"

definition sampleConfigured :: "configResource list" where
  "sampleConfigured =
     [\<lparr>ConfigResource_Address = ''coder_agent.dev'', ConfigResource_Type = ''coder_agent'',
       ConfigResource_Name = ''dev'',
       ConfigResource_Expressions =
         [''instance_id'' \<mapsto> \<lparr>Expression_ConstantValue = OtherValue\<rparr>,
          ''startup_script'' \<mapsto> \<lparr>Expression_ConstantValue = StringValue ''echo hello''\<rparr>]\<rparr>,
      \<lparr>ConfigResource_Address = ''null_resource.web'', ConfigResource_Type = ''null_resource'',
       ConfigResource_Name = ''web'', ConfigResource_Expressions = Map.empty\<rparr>]"

definition samplePlan :: "agentAttributes plan" where
  "samplePlan =
     \<lparr>Plan_Config =
        Some \<lparr>Config_RootModule = Some \<lparr>ConfigModule_Resources = sampleConfigured\<rparr>\<rparr>,
      Plan_PlannedValues =
        Some \<lparr>StateValues_RootModule = Some \<lparr>StateModule_Resources = sampleListing\<rparr>\<rparr>\<rparr>"

definition sampleState :: "agentAttributes state" where
  "sampleState =
     \<lparr>State_Values =
        Some \<lparr>StateValues_RootModule = Some \<lparr>StateModule_Resources = sampleListing\<rparr>\<rparr>\<rparr>"

definition sampleWorld :: "(nat, unit, agentAttributes) world" where
  "sampleWorld =
     \<lparr>lib_unicodeLower = (\<lambda>s. s),
      lib_Join = (\<lambda>dir file. dir @ ''/'' @ file),
      lib_ParseString = (\<lambda>raw. Inr ()),
      lib_NewAnalysedGraph = (\<lambda>ast. Inr sampleGraph),
      lib_Decode = Inr,
      lib_GreaterThanOrEqual = (\<lambda>v m. m \<le> v),
      lib_VersionString = (\<lambda>v. ''v''),
      minimumTerraformVersion = 1,
      t_binaryPath = ''terraform'',
      t_cachePath = [],
      stream_Recv = Inr (Request_Start sampleStart),
      stream_Send = (\<lambda>resp. None),
      os_WriteFile = (\<lambda>path content. None),
      os_Environ = [''HOME=/root''],
      os_ReadFile = (\<lambda>path. Inr ''new''),
      sdk_AgentScriptEnv = [],
      tfexec_NewTerraform = (\<lambda>dir bin. None),
      tf_Version = Inr 2,
      tf_SetEnv = None,
      tf_Init = None,
      tf_ShowPlanFile = (\<lambda>path. Inr samplePlan),
      tf_ShowStateFile = (\<lambda>path. Inr sampleState),
      tf_Graph = Inr sampleDot,
      cmd_Run = (\<lambda>cmd. None),
      shutdown_Err = False\<rparr>"

definition sampleEnv :: "string list" where
  "sampleEnv =
     [''HOME=/root'', ''CODER_URL=https://coder.test'',
      ''CODER_WORKSPACE_TRANSITION=destroy'', ''CODER_WORKSPACE_NAME=dev'',
      ''CODER_WORKSPACE_OWNER=kim'', ''REGION=eu'']"

definition applyCommand :: command where
  "applyCommand =
     \<lparr>Cmd_Path = ''terraform'',
      Cmd_Args = [''apply'', ''-no-color'', ''-auto-approve'', ''-input=false'', ''-json'',
                  ''-refresh=true'', ''-destroy'', ''-var'', ''size=large'', ''-var'', ''zone=b''],
      Cmd_Env = sampleEnv, Cmd_Dir = ''/work''\<rparr>"

definition planCommand :: command where
  "planCommand =
     \<lparr>Cmd_Path = ''terraform'',
      Cmd_Args = [''plan'', ''-no-color'', ''-input=false'', ''-json'', ''-refresh=true'',
                  ''-out=/work/terraform.tfplan'', ''-destroy'',
                  ''-var'', ''size=large'', ''-var'', ''zone=b''],
      Cmd_Env = sampleEnv, Cmd_Dir = ''/work''\<rparr>"

text \<open>A request with two environment parameters of one name, and the command it leads to.\<close>

definition twinStart :: start where
  "twinStart =
     sampleStart\<lparr>Start_ParameterValues :=
       [\<lparr>ParameterValue_DestinationScheme = ENVIRONMENT_VARIABLE,
         ParameterValue_Name = ''A'', ParameterValue_Value = ''1''\<rparr>,
        \<lparr>ParameterValue_DestinationScheme = ENVIRONMENT_VARIABLE,
         ParameterValue_Name = ''A'', ParameterValue_Value = ''2''\<rparr>]\<rparr>"

definition twinWorld :: "(nat, unit, agentAttributes) world" where
  "twinWorld = sampleWorld\<lparr>stream_Recv := Inr (Request_Start twinStart)\<rparr>"

definition twinCommand :: command where
  "twinCommand =
     \<lparr>Cmd_Path = ''terraform'',
      Cmd_Args = [''apply'', ''-no-color'', ''-auto-approve'', ''-input=false'', ''-json'',
                  ''-refresh=true'', ''-destroy''],
      Cmd_Env = [''HOME=/root'', ''CODER_URL=https://coder.test'',
                 ''CODER_WORKSPACE_TRANSITION=destroy'', ''CODER_WORKSPACE_NAME=dev'',
                 ''CODER_WORKSPACE_OWNER=kim'', ''A=1'', ''A=2''],
      Cmd_Dir = ''/work''\<rparr>"

text \<open>A parameter whose destination scheme has no name.\<close>

definition strangeParameter :: parameterValue where
  "strangeParameter =
     \<lparr>ParameterValue_DestinationScheme = UnknownDestination 7,
      ParameterValue_Name = ''shape'', ParameterValue_Value = ''round''\<rparr>"

text \<open>Records of the structured log.\<close>

definition plainRecord :: terraformProvisionLog where
  "plainRecord =
     \<lparr>ProvisionLog_Level = ''info'', ProvisionLog_Message = ''Apply complete!'',
      ProvisionLog_Diagnostic = None\<rparr>"

definition sampleDiagnostic :: terraformProvisionLogDiagnostic where
  "sampleDiagnostic =
     \<lparr>Diagnostic_Severity = ''error'', Diagnostic_Summary = ''boom'',
      Diagnostic_Detail = ''it broke''\<rparr>"

definition diagnosedRecord :: terraformProvisionLog where
  "diagnosedRecord =
     \<lparr>ProvisionLog_Level = ''error'', ProvisionLog_Message = ''Error: boom'',
      ProvisionLog_Diagnostic = Some sampleDiagnostic\<rparr>"

definition oddSeverityRecord :: terraformProvisionLog where
  "oddSeverityRecord =
     \<lparr>ProvisionLog_Level = ''warn'', ProvisionLog_Message = ''Warning: hm'',
      ProvisionLog_Diagnostic = Some (sampleDiagnostic\<lparr>Diagnostic_Severity := ''notice''\<rparr>)\<rparr>"

definition oddLevelRecord :: terraformProvisionLog where
  "oddLevelRecord = diagnosedRecord\<lparr>ProvisionLog_Level := ''fatal''\<rparr>"

section \<open>Properties\<close>

subsection \<open>Lowering\<close>

lemma lowerByte_upperByte:
  assumes "of_char d < (128::nat)"
    and "\<not> ((65::nat) \<le> of_char d \<and> of_char d \<le> (90::nat))"
    and "c = d \<or> c = upperByte d"
  shows "of_char c < (128::nat) \<and> lowerByte c = d"
proof -
  have "of_char c < (128::nat) \<and> of_char (lowerByte c) = (of_char d :: nat)"
    using assms by (auto simp: lowerByte_def upperByte_def of_char_of)
  then show ?thesis by (metis of_char_eq_iff)
qed

lemma ToLower_capitalization:
  assumes "capitalizationOf s w" and "lowerWord w"
  shows "strings_ToLower unicodeLower s = w"
proof -
  have "isASCII s \<and> map lowerByte s = w"
    using assms unfolding capitalizationOf_def lowerWord_def isASCII_def
    by (induction s w rule: list_all2_induct) (use lowerByte_upperByte in auto)
  then show ?thesis by (simp add: strings_ToLower_def)
qed

lemma lowerWord_levels:
  "lowerWord ''trace''" "lowerWord ''debug''" "lowerWord ''info''"
  "lowerWord ''warn''" "lowerWord ''error''"
  by (simp_all add: lowerWord_def)

text \<open>
  C10. Level and severity strings are matched without regard to case: every
  capitalization of "trace", "debug", "info", "warn" or "error" converts to its level, and
  a string is rejected exactly when its lowered form is none of the five.
\<close>

theorem convertTerraformLogLevel_case_insensitive:
  "(capitalizationOf s ''trace'' \<longrightarrow> convertTerraformLogLevel unicodeLower s = Inr TRACE) \<and>
   (capitalizationOf s ''debug'' \<longrightarrow> convertTerraformLogLevel unicodeLower s = Inr DEBUG) \<and>
   (capitalizationOf s ''info'' \<longrightarrow> convertTerraformLogLevel unicodeLower s = Inr INFO) \<and>
   (capitalizationOf s ''warn'' \<longrightarrow> convertTerraformLogLevel unicodeLower s = Inr WARN) \<and>
   (capitalizationOf s ''error'' \<longrightarrow> convertTerraformLogLevel unicodeLower s = Inr ERROR) \<and>
   ((\<exists>err. convertTerraformLogLevel unicodeLower s = Inl err) \<longleftrightarrow>
      strings_ToLower unicodeLower s \<notin> levelNames) \<and>
   (strings_ToLower unicodeLower s \<notin> levelNames \<longrightarrow>
      convertTerraformLogLevel unicodeLower s = Inl (InvalidLogLevel s))"
proof -
  have "capitalizationOf s w \<Longrightarrow> lowerWord w \<Longrightarrow> strings_ToLower unicodeLower s = w" for w
    by (rule ToLower_capitalization)
  then have "capitalizationOf s ''trace'' \<longrightarrow> strings_ToLower unicodeLower s = ''trace''"
    "capitalizationOf s ''debug'' \<longrightarrow> strings_ToLower unicodeLower s = ''debug''"
    "capitalizationOf s ''info'' \<longrightarrow> strings_ToLower unicodeLower s = ''info''"
    "capitalizationOf s ''warn'' \<longrightarrow> strings_ToLower unicodeLower s = ''warn''"
    "capitalizationOf s ''error'' \<longrightarrow> strings_ToLower unicodeLower s = ''error''"
    using lowerWord_levels by blast+
  then show ?thesis
    by (simp add: levelNames_def Let_def)
qed

theorem convertTerraformLogLevel_case_insensitive_witness:
  "capitalizationOf ''WaRn'' ''warn'' \<and>
   convertTerraformLogLevel (\<lambda>s. s) ''WaRn'' = Inr WARN \<and>
   strings_ToLower (\<lambda>s. s) ''verbose'' \<notin> levelNames \<and>
   convertTerraformLogLevel (\<lambda>s. s) ''verbose'' = Inl (InvalidLogLevel ''verbose'')"
proof -
  have c: "capitalizationOf ''WaRn'' ''warn''"
    by code_simp
  have l: "strings_ToLower (\<lambda>s. s) ''verbose'' \<notin> levelNames"
    by (simp add: strings_ToLower_def isASCII_def lowerByte_def levelNames_def)
  show ?thesis
    using c l convertTerraformLogLevel_case_insensitive [of "''WaRn''" "\<lambda>s. s"]
      convertTerraformLogLevel_case_insensitive [of "''verbose''" "\<lambda>s. s"]
    by blast
qed

subsection \<open>The structured log relay\<close>

lemma structuredLogRelay_append:
  "structuredLogRelay u (map Inr before @ rest) =
     structuredLogRelay u (map Inr before) @ structuredLogRelay u rest"
  by (induction before) (auto split: sum.splits option.splits)

text \<open>
  C8. A decoded record with a recognized level makes the relay send one log message, with
  that level and the record's message; when the record also has a diagnostic with a
  recognized severity, a second message follows, with the diagnostic's detail at the
  diagnostic's severity. A record with an unrecognized level sends nothing, and the relay
  goes on with the records after it.
\<close>

theorem structuredLogRelay_record:
  "(convertTerraformLogLevel u (ProvisionLog_Level l) = Inr level \<and>
    ProvisionLog_Diagnostic l = None \<longrightarrow>
      structuredLogRelay u (map Inr before @ Inr l # after) =
        structuredLogRelay u (map Inr before) @
        [Response_Log \<lparr>Log_Level = level, Log_Output = ProvisionLog_Message l\<rparr>] @
        structuredLogRelay u after) \<and>
   (convertTerraformLogLevel u (ProvisionLog_Level l) = Inr level \<and>
    ProvisionLog_Diagnostic l = Some d \<and>
    convertTerraformLogLevel u (Diagnostic_Severity d) = Inr severity \<longrightarrow>
      structuredLogRelay u (map Inr before @ Inr l # after) =
        structuredLogRelay u (map Inr before) @
        [Response_Log \<lparr>Log_Level = level, Log_Output = ProvisionLog_Message l\<rparr>,
         Response_Log \<lparr>Log_Level = severity, Log_Output = Diagnostic_Detail d\<rparr>] @
        structuredLogRelay u after) \<and>
   (convertTerraformLogLevel u (ProvisionLog_Level l) = Inr level \<and>
    ProvisionLog_Diagnostic l = Some d \<and>
    convertTerraformLogLevel u (Diagnostic_Severity d) = Inl err \<longrightarrow>
      structuredLogRelay u (map Inr before @ Inr l # after) =
        structuredLogRelay u (map Inr before) @
        [Response_Log \<lparr>Log_Level = level, Log_Output = ProvisionLog_Message l\<rparr>] @
        structuredLogRelay u after) \<and>
   (convertTerraformLogLevel u (ProvisionLog_Level l) = Inl err \<longrightarrow>
      structuredLogRelay u (map Inr before @ Inr l # after) =
        structuredLogRelay u (map Inr before) @ structuredLogRelay u after)"
  unfolding structuredLogRelay_append [of u before "Inr l # after"]
  by (simp del: convertTerraformLogLevel.simps)

theorem structuredLogRelay_record_witness:
  "structuredLogRelay (\<lambda>s. s) (map Inr [plainRecord] @ Inr plainRecord # [Inr diagnosedRecord]) =
     [Response_Log \<lparr>Log_Level = INFO, Log_Output = ''Apply complete!''\<rparr>,
      Response_Log \<lparr>Log_Level = INFO, Log_Output = ''Apply complete!''\<rparr>,
      Response_Log \<lparr>Log_Level = ERROR, Log_Output = ''Error: boom''\<rparr>,
      Response_Log \<lparr>Log_Level = ERROR, Log_Output = ''it broke''\<rparr>] \<and>
   structuredLogRelay (\<lambda>s. s) (map Inr [plainRecord] @ Inr diagnosedRecord # [Inr plainRecord]) =
     [Response_Log \<lparr>Log_Level = INFO, Log_Output = ''Apply complete!''\<rparr>,
      Response_Log \<lparr>Log_Level = ERROR, Log_Output = ''Error: boom''\<rparr>,
      Response_Log \<lparr>Log_Level = ERROR, Log_Output = ''it broke''\<rparr>,
      Response_Log \<lparr>Log_Level = INFO, Log_Output = ''Apply complete!''\<rparr>] \<and>
   structuredLogRelay (\<lambda>s. s)
       (map Inr [plainRecord] @ Inr oddSeverityRecord # [Inr plainRecord]) =
     [Response_Log \<lparr>Log_Level = INFO, Log_Output = ''Apply complete!''\<rparr>,
      Response_Log \<lparr>Log_Level = WARN, Log_Output = ''Warning: hm''\<rparr>,
      Response_Log \<lparr>Log_Level = INFO, Log_Output = ''Apply complete!''\<rparr>] \<and>
   structuredLogRelay (\<lambda>s. s) (map Inr [plainRecord] @ Inr oddLevelRecord # [Inr plainRecord]) =
     [Response_Log \<lparr>Log_Level = INFO, Log_Output = ''Apply complete!''\<rparr>,
      Response_Log \<lparr>Log_Level = INFO, Log_Output = ''Apply complete!''\<rparr>]"
proof -
  have levels:
    "convertTerraformLogLevel (\<lambda>s. s) ''info'' = Inr INFO"
    "convertTerraformLogLevel (\<lambda>s. s) ''warn'' = Inr WARN"
    "convertTerraformLogLevel (\<lambda>s. s) ''error'' = Inr ERROR"
    "convertTerraformLogLevel (\<lambda>s. s) ''notice'' = Inl (InvalidLogLevel ''notice'')"
    "convertTerraformLogLevel (\<lambda>s. s) ''fatal'' = Inl (InvalidLogLevel ''fatal'')"
    by (simp_all add: strings_ToLower_def isASCII_def lowerByte_def)
  have one: "structuredLogRelay (\<lambda>s. s) [Inr plainRecord] =
               [Response_Log \<lparr>Log_Level = INFO, Log_Output = ''Apply complete!''\<rparr>]"
    and two: "structuredLogRelay (\<lambda>s. s) [Inr diagnosedRecord] =
               [Response_Log \<lparr>Log_Level = ERROR, Log_Output = ''Error: boom''\<rparr>,
                Response_Log \<lparr>Log_Level = ERROR, Log_Output = ''it broke''\<rparr>]"
    using levels
    by (simp_all add: plainRecord_def diagnosedRecord_def sampleDiagnostic_def
          del: convertTerraformLogLevel.simps)
  show ?thesis
    using levels one two
      structuredLogRelay_record
        [where u = "\<lambda>s. s" and l = plainRecord and level = INFO
           and before = "[plainRecord]" and after = "[Inr diagnosedRecord]"]
      structuredLogRelay_record
        [where u = "\<lambda>s. s" and l = diagnosedRecord and level = ERROR
           and before = "[plainRecord]" and after = "[Inr plainRecord]"
           and d = sampleDiagnostic and severity = ERROR]
      structuredLogRelay_record
        [where u = "\<lambda>s. s" and l = oddSeverityRecord and level = WARN
           and before = "[plainRecord]" and after = "[Inr plainRecord]"
           and d = "sampleDiagnostic\<lparr>Diagnostic_Severity := ''notice''\<rparr>"
           and err = "InvalidLogLevel ''notice''"]
      structuredLogRelay_record
        [where u = "\<lambda>s. s" and l = oddLevelRecord
           and before = "[plainRecord]" and after = "[Inr plainRecord]"
           and err = "InvalidLogLevel ''fatal''"]
    by (simp add: plainRecord_def diagnosedRecord_def sampleDiagnostic_def
          oddSeverityRecord_def oddLevelRecord_def del: convertTerraformLogLevel.simps)
qed

subsection \<open>The dependency graph\<close>

lemma edgeLabels_set:
  "set (edgeLabels g destinations) =
     {l. \<exists>m\<in>set destinations. \<exists>d. Nodes_Lookup g m = Some d \<and> nodeLabel d = Some l}"
  by (induction destinations) (auto simp: nodeLabel_def split: option.splits)

lemma dependencies_set:
  "set (dependencies g n) =
     {l. \<exists>m\<in>adjacent g n. \<exists>d. Nodes_Lookup g m = Some d \<and> nodeLabel d = Some l}"
  by (auto simp: dependencies_def adjacent_def edgeLabels_set)

lemma directLoop_other:
  "\<forall>n\<in>set nodes. nodeLabel n \<noteq> Some k \<Longrightarrow> directLoop g nodes direct k = direct k"
  by (induction nodes arbitrary: direct) (auto simp: nodeLabel_def split: option.splits)

lemma directLoop_last:
  "nodeLabel n = Some k \<Longrightarrow> \<forall>m\<in>set after. nodeLabel m \<noteq> Some k \<Longrightarrow>
   directLoop g (before @ n # after) direct k = Some (dependencies g n)"
  by (induction before arbitrary: direct)
     (auto simp: nodeLabel_def directLoop_other split: option.splits)

lemma directLoop_dom:
  "dom (directLoop g nodes direct) = dom direct \<union> {k. \<exists>n\<in>set nodes. nodeLabel n = Some k}"
  by (induction nodes arbitrary: direct) (auto simp: nodeLabel_def split: option.splits)


lemma findDirectDependencies_parsed:
  "ParseString rawGraph = Inr ast \<Longrightarrow> NewAnalysedGraph ast = Inr g \<Longrightarrow>
   findDirectDependencies ParseString NewAnalysedGraph rawGraph =
     Inr (directLoop g (Nodes_Nodes g) Map.empty)"
  by (simp add: findDirectDependencies_def)

lemmas graph_defs =
  sampleGraph_def webNode_def devNode_def rootNode_def clashGraph_def firstNode_def
  secondNode_def otherNode_def quoted_def quote_def strings_Trim_def nodeLabel_def
  dependencies_def rangeKeys_def

subsection \<open>The correlator\<close>

lemma planAgent_auth:
  "Agent_Auth (planAgent r) =
     (if ConfigResource_Expressions r ''instance_id'' \<noteq> None
      then Agent_InstanceId [] else Agent_Token [])"
  by (simp add: planAgent_def Let_def split: option.splits constantValue.splits)

lemma applyAgent_auth:
  "Agent_Auth (applyAgent attrs) =
     (if Attrs_InstanceID attrs \<noteq> []
      then Agent_InstanceId (Attrs_InstanceID attrs) else Agent_Token (Attrs_Token attrs))"
  by (simp add: applyAgent_def Let_def)

lemma planAgents_entry:
  "planAgents configured agents key = Some a \<Longrightarrow>
   agents key = Some a \<or>
   (\<exists>r\<in>set configured. ConfigResource_Type r = ''coder_agent'' \<and>
        ConfigResource_Address r = key \<and> a = planAgent r)"
proof (induction configured arbitrary: agents)
  case Nil
  then show ?case by simp
next
  case (Cons r configured)
  show ?case
  proof (cases "ConfigResource_Type r \<noteq> ''coder_agent''")
    case True
    with Cons.prems have "planAgents configured agents key = Some a" by simp
    from Cons.IH [OF this] show ?thesis by auto
  next
    case False
    with Cons.prems
    have "planAgents configured (agents(ConfigResource_Address r \<mapsto> planAgent r)) key = Some a"
      by simp
    from Cons.IH [OF this] False show ?thesis
      by (auto split: if_splits)
  qed
qed

lemma applyAgents_entry:
  "applyAgents Decode listed agents = Inr table \<Longrightarrow> table key = Some a \<Longrightarrow>
   agents key = Some a \<or>
   (\<exists>r\<in>set listed. \<exists>attrs. StateResource_Type r = ''coder_agent'' \<and>
        resourceKey (StateResource_Type r) (StateResource_Name r) = key \<and>
        Decode (StateResource_AttributeValues r) = Inr attrs \<and> a = applyAgent attrs)"
proof (induction listed arbitrary: agents)
  case Nil
  then show ?case by simp
next
  case (Cons r listed)
  show ?case
  proof (cases "StateResource_Type r \<noteq> ''coder_agent''")
    case True
    with Cons.prems have "applyAgents Decode listed agents = Inr table" by simp
    from Cons.IH [OF this Cons.prems(2)] show ?thesis by auto
  next
    case False
    with Cons.prems obtain attrs where
      d: "Decode (StateResource_AttributeValues r) = Inr attrs"
      and rest: "applyAgents Decode listed
             (agents(resourceKey (StateResource_Type r) (StateResource_Name r)
                     \<mapsto> applyAgent attrs)) = Inr table"
      by (auto split: sum.splits)
    from Cons.IH [OF rest Cons.prems(2)] False d show ?thesis
      by (auto split: if_splits)
  qed
qed

lemma planAgents_other:
  "\<forall>m\<in>set resources. ConfigResource_Type m = ''coder_agent'' \<longrightarrow> ConfigResource_Address m \<noteq> k
   \<Longrightarrow> planAgents resources agents k = agents k"
  by (induction resources arbitrary: agents) auto

lemma planAgents_last:
  "ConfigResource_Type r = ''coder_agent'' \<Longrightarrow>
   \<forall>m\<in>set after. ConfigResource_Type m = ''coder_agent'' \<longrightarrow>
       ConfigResource_Address m \<noteq> ConfigResource_Address r \<Longrightarrow>
   planAgents (before @ r # after) agents (ConfigResource_Address r) = Some (planAgent r)"
  by (induction before arbitrary: agents) (auto simp: planAgents_other)

lemma planAgents_dom:
  "dom (planAgents resources agents) =
     dom agents \<union> {ConfigResource_Address r | r.
                     r \<in> set resources \<and> ConfigResource_Type r = ''coder_agent''}"
  by (induction resources arbitrary: agents) auto

lemma applyAgents_other:
  "applyAgents Decode resources agents = Inr table \<Longrightarrow>
   \<forall>m\<in>set resources. StateResource_Type m = ''coder_agent'' \<longrightarrow>
       resourceKey (StateResource_Type m) (StateResource_Name m) \<noteq> k \<Longrightarrow>
   table k = agents k"
  by (induction resources arbitrary: agents) (auto split: if_splits sum.splits)

lemma applyAgents_last:
  "applyAgents Decode (before @ r # after) agents = Inr table \<Longrightarrow>
   StateResource_Type r = ''coder_agent'' \<Longrightarrow>
   Decode (StateResource_AttributeValues r) = Inr attrs \<Longrightarrow>
   \<forall>m\<in>set after. StateResource_Type m = ''coder_agent'' \<longrightarrow>
       resourceKey (StateResource_Type m) (StateResource_Name m) \<noteq>
       resourceKey (StateResource_Type r) (StateResource_Name r) \<Longrightarrow>
   table (resourceKey (StateResource_Type r) (StateResource_Name r)) = Some (applyAgent attrs)"
proof (induction before arbitrary: agents)
  case Nil
  then show ?case
    using applyAgents_other [of Decode after _ table]
    by (auto split: sum.splits)
next
  case (Cons x before)
  then show ?case
    by (auto split: if_splits sum.splits)
qed

lemma applyAgents_decoded:
  "\<forall>r\<in>set resources. StateResource_Type r = ''coder_agent'' \<longrightarrow>
       (\<exists>attrs. Decode (StateResource_AttributeValues r) = Inr attrs) \<Longrightarrow>
   \<exists>table. applyAgents Decode resources agents = Inr table"
  by (induction resources arbitrary: agents) auto

lemma applyAgents_undecoded:
  "\<forall>r\<in>set before. StateResource_Type r = ''coder_agent'' \<longrightarrow>
       (\<exists>attrs. Decode (StateResource_AttributeValues r) = Inr attrs) \<Longrightarrow>
   StateResource_Type r = ''coder_agent'' \<Longrightarrow>
   Decode (StateResource_AttributeValues r) = Inl err \<Longrightarrow>
   applyAgents Decode (before @ r # after) agents = Inl (DecodeAgentAttributes err)"
  by (induction before arbitrary: agents) auto

text \<open>
  C7. The agent table holds an entry for a key exactly when an agent resource has it, and
  the entry is that of the last such resource in the listing. On the plan path its auth is
  InstanceId with the empty string when the resource has an \<open>instance_id\<close> expression, and
  Token with the empty string otherwise. On the apply path, where the table exists once
  every agent resource decodes, its auth is InstanceId with the decoded \<open>instance_id\<close> when
  that is not empty, and Token with the decoded \<open>token\<close> otherwise. Conversely every entry
  comes from an agent resource with its key, and an auth is one variant, never both.
\<close>

theorem agent_table_auth:
  "(planAgents configured Map.empty key = Some a \<longrightarrow>
      (\<exists>r\<in>set configured. ConfigResource_Type r = ''coder_agent'' \<and>
           ConfigResource_Address r = key \<and> a = planAgent r \<and>
           Agent_Auth a = (if ConfigResource_Expressions r ''instance_id'' \<noteq> None
                           then Agent_InstanceId [] else Agent_Token []))) \<and>
   (applyAgents Decode listed Map.empty = Inr table \<and> table key' = Some a' \<longrightarrow>
      (\<exists>r\<in>set listed. \<exists>attrs. StateResource_Type r = ''coder_agent'' \<and>
           resourceKey (StateResource_Type r) (StateResource_Name r) = key' \<and>
           Decode (StateResource_AttributeValues r) = Inr attrs \<and> a' = applyAgent attrs \<and>
           Agent_Auth a' = (if Attrs_InstanceID attrs \<noteq> []
                            then Agent_InstanceId (Attrs_InstanceID attrs)
                            else Agent_Token (Attrs_Token attrs)))) \<and>
   ((\<exists>token. Agent_Auth a'' = Agent_Token token) \<noteq>
    (\<exists>instanceId. Agent_Auth a'' = Agent_InstanceId instanceId)) \<and>
   (configured = before @ c # after \<and> ConfigResource_Type c = ''coder_agent'' \<and>
    (\<forall>m\<in>set after. ConfigResource_Type m = ''coder_agent'' \<longrightarrow>
        ConfigResource_Address m \<noteq> ConfigResource_Address c) \<longrightarrow>
      planAgents configured Map.empty (ConfigResource_Address c) = Some (planAgent c) \<and>
      Agent_Auth (planAgent c) = (if ConfigResource_Expressions c ''instance_id'' \<noteq> None
                                  then Agent_InstanceId [] else Agent_Token [])) \<and>
   (listed = before' @ s # after' \<and> StateResource_Type s = ''coder_agent'' \<and>
    applyAgents Decode listed Map.empty = Inr table \<and>
    Decode (StateResource_AttributeValues s) = Inr attrs \<and>
    (\<forall>m\<in>set after'. StateResource_Type m = ''coder_agent'' \<longrightarrow>
        resourceKey (StateResource_Type m) (StateResource_Name m) \<noteq>
        resourceKey (StateResource_Type s) (StateResource_Name s)) \<longrightarrow>
      table (resourceKey (StateResource_Type s) (StateResource_Name s)) =
        Some (applyAgent attrs) \<and>
      Agent_Auth (applyAgent attrs) = (if Attrs_InstanceID attrs \<noteq> []
                                       then Agent_InstanceId (Attrs_InstanceID attrs)
                                       else Agent_Token (Attrs_Token attrs))) \<and>
   dom (planAgents configured Map.empty) =
     {ConfigResource_Address r | r. r \<in> set configured \<and> ConfigResource_Type r = ''coder_agent''} \<and>
   ((\<forall>r\<in>set listed. StateResource_Type r = ''coder_agent'' \<longrightarrow>
        (\<exists>decoded. Decode (StateResource_AttributeValues r) = Inr decoded)) \<longrightarrow>
      (\<exists>filled. applyAgents Decode listed Map.empty = Inr filled))"
proof -
  have plan: "\<exists>r\<in>set configured. ConfigResource_Type r = ''coder_agent'' \<and>
           ConfigResource_Address r = key \<and> a = planAgent r \<and>
           Agent_Auth a = (if ConfigResource_Expressions r ''instance_id'' \<noteq> None
                           then Agent_InstanceId [] else Agent_Token [])"
    if "planAgents configured Map.empty key = Some a"
    using planAgents_entry [OF that] planAgent_auth by auto
  have appl: "\<exists>r\<in>set listed. \<exists>attrs. StateResource_Type r = ''coder_agent'' \<and>
           resourceKey (StateResource_Type r) (StateResource_Name r) = key' \<and>
           Decode (StateResource_AttributeValues r) = Inr attrs \<and> a' = applyAgent attrs \<and>
           Agent_Auth a' = (if Attrs_InstanceID attrs \<noteq> []
                            then Agent_InstanceId (Attrs_InstanceID attrs)
                            else Agent_Token (Attrs_Token attrs))"
    if "applyAgents Decode listed Map.empty = Inr table" "table key' = Some a'"
    using applyAgents_entry [OF that] applyAgent_auth by fastforce
  have one: "(\<exists>token. Agent_Auth a'' = Agent_Token token) \<noteq>
    (\<exists>instanceId. Agent_Auth a'' = Agent_InstanceId instanceId)"
    by (cases "Agent_Auth a''") auto
  have planLast:
    "planAgents configured Map.empty (ConfigResource_Address c) = Some (planAgent c) \<and>
      Agent_Auth (planAgent c) = (if ConfigResource_Expressions c ''instance_id'' \<noteq> None
                                  then Agent_InstanceId [] else Agent_Token [])"
    if "configured = before @ c # after" "ConfigResource_Type c = ''coder_agent''"
      "\<forall>m\<in>set after. ConfigResource_Type m = ''coder_agent'' \<longrightarrow>
        ConfigResource_Address m \<noteq> ConfigResource_Address c"
  proof -
    have "planAgents configured Map.empty (ConfigResource_Address c) = Some (planAgent c)"
      unfolding that(1) by (rule planAgents_last [OF that(2) that(3)])
    then show ?thesis
      using planAgent_auth [of c] by simp
  qed
  have applLast:
    "table (resourceKey (StateResource_Type s) (StateResource_Name s)) =
        Some (applyAgent attrs) \<and>
      Agent_Auth (applyAgent attrs) = (if Attrs_InstanceID attrs \<noteq> []
                                       then Agent_InstanceId (Attrs_InstanceID attrs)
                                       else Agent_Token (Attrs_Token attrs))"
    if "listed = before' @ s # after'" "StateResource_Type s = ''coder_agent''"
      "applyAgents Decode listed Map.empty = Inr table"
      "Decode (StateResource_AttributeValues s) = Inr attrs"
      "\<forall>m\<in>set after'. StateResource_Type m = ''coder_agent'' \<longrightarrow>
        resourceKey (StateResource_Type m) (StateResource_Name m) \<noteq>
        resourceKey (StateResource_Type s) (StateResource_Name s)"
  proof -
    have "table (resourceKey (StateResource_Type s) (StateResource_Name s)) =
            Some (applyAgent attrs)"
      using applyAgents_last [OF that(3) [unfolded that(1)] that(2) that(4) that(5)] .
    then show ?thesis
      using applyAgent_auth [of attrs] by simp
  qed
  have keys: "dom (planAgents configured Map.empty) =
     {ConfigResource_Address r | r. r \<in> set configured \<and> ConfigResource_Type r = ''coder_agent''}"
    by (simp add: planAgents_dom)
  have total: "\<exists>filled. applyAgents Decode listed Map.empty = Inr filled"
    if "\<forall>r\<in>set listed. StateResource_Type r = ''coder_agent'' \<longrightarrow>
        (\<exists>decoded. Decode (StateResource_AttributeValues r) = Inr decoded)"
    using applyAgents_decoded [OF that] .
  have c1: "planAgents configured Map.empty key = Some a \<longrightarrow>
      (\<exists>r\<in>set configured. ConfigResource_Type r = ''coder_agent'' \<and>
           ConfigResource_Address r = key \<and> a = planAgent r \<and>
           Agent_Auth a = (if ConfigResource_Expressions r ''instance_id'' \<noteq> None
                           then Agent_InstanceId [] else Agent_Token []))"
    using plan by blast
  have c2: "applyAgents Decode listed Map.empty = Inr table \<and> table key' = Some a' \<longrightarrow>
      (\<exists>r\<in>set listed. \<exists>attrs. StateResource_Type r = ''coder_agent'' \<and>
           resourceKey (StateResource_Type r) (StateResource_Name r) = key' \<and>
           Decode (StateResource_AttributeValues r) = Inr attrs \<and> a' = applyAgent attrs \<and>
           Agent_Auth a' = (if Attrs_InstanceID attrs \<noteq> []
                            then Agent_InstanceId (Attrs_InstanceID attrs)
                            else Agent_Token (Attrs_Token attrs)))"
    using appl by blast
  have c4: "configured = before @ c # after \<and> ConfigResource_Type c = ''coder_agent'' \<and>
    (\<forall>m\<in>set after. ConfigResource_Type m = ''coder_agent'' \<longrightarrow>
        ConfigResource_Address m \<noteq> ConfigResource_Address c) \<longrightarrow>
      planAgents configured Map.empty (ConfigResource_Address c) = Some (planAgent c) \<and>
      Agent_Auth (planAgent c) = (if ConfigResource_Expressions c ''instance_id'' \<noteq> None
                                  then Agent_InstanceId [] else Agent_Token [])"
    using planLast by blast
  have c5: "listed = before' @ s # after' \<and> StateResource_Type s = ''coder_agent'' \<and>
    applyAgents Decode listed Map.empty = Inr table \<and>
    Decode (StateResource_AttributeValues s) = Inr attrs \<and>
    (\<forall>m\<in>set after'. StateResource_Type m = ''coder_agent'' \<longrightarrow>
        resourceKey (StateResource_Type m) (StateResource_Name m) \<noteq>
        resourceKey (StateResource_Type s) (StateResource_Name s)) \<longrightarrow>
      table (resourceKey (StateResource_Type s) (StateResource_Name s)) =
        Some (applyAgent attrs) \<and>
      Agent_Auth (applyAgent attrs) = (if Attrs_InstanceID attrs \<noteq> []
                                       then Agent_InstanceId (Attrs_InstanceID attrs)
                                       else Agent_Token (Attrs_Token attrs))"
    using applLast by blast
  have c7: "(\<forall>r\<in>set listed. StateResource_Type r = ''coder_agent'' \<longrightarrow>
        (\<exists>decoded. Decode (StateResource_AttributeValues r) = Inr decoded)) \<longrightarrow>
      (\<exists>filled. applyAgents Decode listed Map.empty = Inr filled)"
    using total by blast
  from c1 c2 one c4 c5 keys c7 show ?thesis
    by (intro conjI)
qed

lemmas listing_defs =
  sampleListing_def sampleConfigured_def sampleAttributes_def noAttributes_def
  samplePlan_def sampleState_def resourceKey_def

theorem agent_table_auth_witness:
  "planAgents sampleConfigured Map.empty ''coder_agent.dev'' =
     Some \<lparr>Agent_Id = [], Agent_Env = [], Agent_StartupScript = ''echo hello'',
           Agent_Auth = Agent_InstanceId []\<rparr> \<and>
   applyAgents Inr sampleListing Map.empty =
     Inr [''coder_agent.dev'' \<mapsto> applyAgent sampleAttributes] \<and>
   [''coder_agent.dev'' \<mapsto> applyAgent sampleAttributes] ''coder_agent.dev'' =
     Some \<lparr>Agent_Id = ''a1'', Agent_Env = [], Agent_StartupScript = ''echo hello'',
           Agent_Auth = Agent_Token ''secret''\<rparr> \<and>
   dom (planAgents sampleConfigured Map.empty) = {''coder_agent.dev''} \<and>
   (\<exists>r\<in>set sampleListing. \<exists>attrs.
      StateResource_Type r = ''coder_agent'' \<and>
      resourceKey (StateResource_Type r) (StateResource_Name r) = ''coder_agent.dev'' \<and>
      Inr (StateResource_AttributeValues r) = (Inr attrs :: foreignError + agentAttributes) \<and>
      applyAgent sampleAttributes = applyAgent attrs) \<and>
   (\<exists>r\<in>set sampleConfigured.
      ConfigResource_Type r = ''coder_agent'' \<and> ConfigResource_Address r = ''coder_agent.dev'')"
proof -
  let ?agentConfig = "hd sampleConfigured"
  let ?agentState = "hd sampleListing"
  let ?table = "[''coder_agent.dev'' \<mapsto> applyAgent sampleAttributes]"
  have lists: "sampleConfigured = [] @ ?agentConfig # tl sampleConfigured"
    "sampleListing = [] @ ?agentState # tl sampleListing"
    by (simp_all add: listing_defs)
  have kinds: "ConfigResource_Type ?agentConfig = ''coder_agent''"
    "ConfigResource_Address ?agentConfig = ''coder_agent.dev''"
    "\<forall>m\<in>set (tl sampleConfigured). ConfigResource_Type m = ''coder_agent'' \<longrightarrow>
        ConfigResource_Address m \<noteq> ConfigResource_Address ?agentConfig"
    "StateResource_Type ?agentState = ''coder_agent''"
    "resourceKey (StateResource_Type ?agentState) (StateResource_Name ?agentState) =
       ''coder_agent.dev''"
    "StateResource_AttributeValues ?agentState = sampleAttributes"
    "\<forall>m\<in>set (tl sampleListing). StateResource_Type m = ''coder_agent'' \<longrightarrow>
        resourceKey (StateResource_Type m) (StateResource_Name m) \<noteq>
        resourceKey (StateResource_Type ?agentState) (StateResource_Name ?agentState)"
    "ConfigResource_Expressions ?agentConfig ''instance_id'' \<noteq> None"
    by (simp_all add: listing_defs)
  have tables: "applyAgents Inr sampleListing Map.empty = (Inr ?table :: error + (string \<rightharpoonup> agent))"
    by (simp_all add: listing_defs)
  have agents: "planAgent ?agentConfig =
      \<lparr>Agent_Id = [], Agent_Env = [], Agent_StartupScript = ''echo hello'',
       Agent_Auth = Agent_InstanceId []\<rparr>"
    "applyAgent sampleAttributes =
      \<lparr>Agent_Id = ''a1'', Agent_Env = [], Agent_StartupScript = ''echo hello'',
       Agent_Auth = Agent_Token ''secret''\<rparr>"
    "Attrs_InstanceID sampleAttributes = []" "Attrs_Token sampleAttributes = ''secret''"
    by (simp_all add: listing_defs planAgent_def applyAgent_def)
  note here = agent_table_auth
      [where configured = sampleConfigured and key = "''coder_agent.dev''"
         and a = "planAgent ?agentConfig"
         and Decode = Inr and listed = sampleListing and table = ?table
         and key' = "''coder_agent.dev''" and a' = "applyAgent sampleAttributes"
         and a'' = "applyAgent sampleAttributes"
         and before = "[]" and c = ?agentConfig and after = "tl sampleConfigured"
         and before' = "[]" and s = ?agentState and after' = "tl sampleListing"
         and attrs = sampleAttributes]
  have entry: "planAgents sampleConfigured Map.empty ''coder_agent.dev'' =
                 Some (planAgent ?agentConfig)"
    using here lists(1) kinds(1,2,3) by simp
  have keys: "dom (planAgents sampleConfigured Map.empty) = {''coder_agent.dev''}"
    using here by (auto simp: listing_defs)
  have origin: "\<exists>r\<in>set sampleListing. \<exists>attrs.
      StateResource_Type r = ''coder_agent'' \<and>
      resourceKey (StateResource_Type r) (StateResource_Name r) = ''coder_agent.dev'' \<and>
      Inr (StateResource_AttributeValues r) = (Inr attrs :: foreignError + agentAttributes) \<and>
      applyAgent sampleAttributes = applyAgent attrs"
    using here tables(1) by auto
  have origin': "\<exists>r\<in>set sampleConfigured.
      ConfigResource_Type r = ''coder_agent'' \<and> ConfigResource_Address r = ''coder_agent.dev''"
    using here entry by auto
  show ?thesis
    using entry keys origin origin' tables(1) agents(1,2) by simp
qed

lemma firstResolved_first:
  "agents dep = Some a \<Longrightarrow> \<forall>d\<in>set before. agents d = None \<Longrightarrow>
   firstResolved agents (before @ dep # after) = Some a"
  by (induction before) (auto simp: firstResolved_def)

lemma firstResolved_unset:
  "firstResolved agents deps = None \<longleftrightarrow> (\<forall>d\<in>set deps. agents d = None)"
  by (induction deps) (auto simp: firstResolved_def)

lemma findAgent_firstResolved: "findAgent agents deps = firstResolved agents deps"
  by (induction deps) (auto simp: firstResolved_def split: option.splits)

lemma associate_correlated:
  "associate resourceDependencies agents listed = correlated resourceDependencies agents listed"
  by (induction listed)
     (auto simp: correlated_def List.map_filter_simps findAgent_firstResolved split: option.splits)

text \<open>
  C1. On both paths the resources of the response are, in the order of the flat listing,
  one for each listed resource that is not an agent and whose key \<open>type.name\<close> is in the
  dependency map; a resource whose key is absent is left out. The agent of a resource is
  that of the first dependency, in the order of its list, that is a key of the agent
  table, and is unset when no dependency is.
\<close>

theorem correlator_resources:
  "(tf_ShowPlanFile w path = Inr p \<and> tf_Graph w = Inr rawGraph \<and>
    findDirectDependencies (lib_ParseString w) (lib_NewAnalysedGraph w) rawGraph = Inr deps \<and>
    configResources p = Some configured \<and> plannedResources p = Some planned \<longrightarrow>
      snd (parseTerraformPlan w path) =
        Inr (Response_Complete
               \<lparr>Complete_State = [], Complete_Error = [],
                Complete_Resources =
                  Some (correlated deps (planAgents configured Map.empty) planned)\<rparr>)) \<and>
   (os_ReadFile w path = Inr content \<and> tf_ShowStateFile w path = Inr s \<and>
    State_Values s = Some vals \<and> tf_Graph w = Inr rawGraph \<and>
    findDirectDependencies (lib_ParseString w) (lib_NewAnalysedGraph w) rawGraph = Inr deps \<and>
    valuesResources vals = Some listed \<and>
    applyAgents (lib_Decode w) listed Map.empty = Inr agents \<longrightarrow>
      snd (parseTerraformApply w path) =
        Inr (Response_Complete
               \<lparr>Complete_State = content, Complete_Error = [],
                Complete_Resources = Some (correlated deps agents listed)\<rparr>))"
  by (simp add: parseTerraformPlan_def parseTerraformApply_def associate_correlated)


theorem correlator_resources_witness:
  "snd (parseTerraformPlan sampleWorld ''/work/terraform.tfplan'') =
     Inr (Response_Complete
            \<lparr>Complete_State = [], Complete_Error = [],
             Complete_Resources =
               Some [\<lparr>Resource_Name = ''web'', Resource_Type = ''null_resource'',
                      Resource_Agent =
                        Some \<lparr>Agent_Id = [], Agent_Env = [],
                              Agent_StartupScript = ''echo hello'',
                              Agent_Auth = Agent_InstanceId []\<rparr>\<rparr>]\<rparr>) \<and>
   snd (parseTerraformApply sampleWorld ''/work/terraform.tfstate'') =
     Inr (Response_Complete
            \<lparr>Complete_State = ''new'', Complete_Error = [],
             Complete_Resources =
               Some [\<lparr>Resource_Name = ''web'', Resource_Type = ''null_resource'',
                      Resource_Agent =
                        Some \<lparr>Agent_Id = ''a1'', Agent_Env = [],
                              Agent_StartupScript = ''echo hello'',
                              Agent_Auth = Agent_Token ''secret''\<rparr>\<rparr>]\<rparr>)"
proof -
  let ?deps = "directLoop sampleGraph (Nodes_Nodes sampleGraph) Map.empty"
  let ?planAgents = "planAgents sampleConfigured Map.empty"
  let ?applyAgents = "[''coder_agent.dev'' \<mapsto> applyAgent sampleAttributes]"
  have deps: "findDirectDependencies (lib_ParseString sampleWorld)
                (lib_NewAnalysedGraph sampleWorld) sampleDot = Inr ?deps"
    by (simp add: sampleWorld_def findDirectDependencies_def)
  have artifacts:
    "tf_ShowPlanFile sampleWorld ''/work/terraform.tfplan'' = Inr samplePlan"
    "tf_Graph sampleWorld = Inr sampleDot"
    "configResources samplePlan = Some sampleConfigured"
    "plannedResources samplePlan = Some sampleListing"
    "os_ReadFile sampleWorld ''/work/terraform.tfstate'' = Inr ''new''"
    "tf_ShowStateFile sampleWorld ''/work/terraform.tfstate'' = Inr sampleState"
    "State_Values sampleState =
       Some \<lparr>StateValues_RootModule = Some \<lparr>StateModule_Resources = sampleListing\<rparr>\<rparr>"
    "valuesResources \<lparr>StateValues_RootModule = Some \<lparr>StateModule_Resources = sampleListing\<rparr>\<rparr>
       = Some sampleListing"
    by (simp_all add: sampleWorld_def samplePlan_def sampleState_def configResources_def
          plannedResources_def valuesResources_def)
  have agents: "applyAgents (lib_Decode sampleWorld) sampleListing Map.empty = Inr ?applyAgents"
    by (simp add: sampleWorld_def listing_defs)
  have planned: "correlated ?deps ?planAgents sampleListing =
                   [\<lparr>Resource_Name = ''web'', Resource_Type = ''null_resource'',
                     Resource_Agent =
                       Some \<lparr>Agent_Id = [], Agent_Env = [],
                             Agent_StartupScript = ''echo hello'',
                             Agent_Auth = Agent_InstanceId []\<rparr>\<rparr>]"
    by (simp add: correlated_def List.map_filter_simps firstResolved_def listing_defs
          graph_defs planAgent_def)
  have applied: "correlated ?deps ?applyAgents sampleListing =
                   [\<lparr>Resource_Name = ''web'', Resource_Type = ''null_resource'',
                     Resource_Agent =
                       Some \<lparr>Agent_Id = ''a1'', Agent_Env = [],
                             Agent_StartupScript = ''echo hello'',
                             Agent_Auth = Agent_Token ''secret''\<rparr>\<rparr>]"
    by (simp add: correlated_def List.map_filter_simps firstResolved_def listing_defs
          graph_defs applyAgent_def)
  show ?thesis
    using deps artifacts agents planned applied
      correlator_resources
        [where w = sampleWorld and path = "''/work/terraform.tfplan''" and p = samplePlan
           and rawGraph = "sampleDot" and deps = ?deps
           and configured = sampleConfigured and planned = sampleListing]
      correlator_resources
        [where w = sampleWorld and path = "''/work/terraform.tfstate''"
           and rawGraph = "sampleDot" and deps = ?deps and content = "''new''"
           and s = sampleState and listed = sampleListing and agents = ?applyAgents
           and vals = "\<lparr>StateValues_RootModule =
                             Some \<lparr>StateModule_Resources = sampleListing\<rparr>\<rparr>"]
    by simp
qed

subsection \<open>The session\<close>

lemma parseTerraformPlan_no_run: "Call_Run c \<notin> set (fst (parseTerraformPlan w p))"
  by (simp add: parseTerraformPlan_def split: sum.splits option.splits)

lemma parseTerraformApply_no_run: "Call_Run c \<notin> set (fst (parseTerraformApply w p))"
  by (simp add: parseTerraformApply_def split: sum.splits option.splits)

lemma Provision_finish_no_run:
  "Call_Run c \<notin> set (fst (Provision_finish w st sp pp r))"
  using parseTerraformPlan_no_run [of c w pp] parseTerraformApply_no_run [of c w sp]
  by (auto simp: Provision_finish_def Let_def split: option.splits sum.splits prod.splits if_splits)

lemma Provision_engine_run:
  assumes "Call_Run cmd \<in> set (fst (Provision_engine w st sp))"
  shows "\<exists>md env vars.
           Start_Metadata st = Some md \<and>
           parameterLoop (Start_ParameterValues st) (engineEnv w md) [] = Inr (env, vars) \<and>
           cmd = \<lparr>Cmd_Path = t_binaryPath w,
                  Cmd_Args = engineArgs (Start_DryRun st) (planfile w st)
                               (Metadata_WorkspaceTransition md) vars,
                  Cmd_Env = env, Cmd_Dir = Start_Directory st\<rparr> \<and>
           Provision_engine w st sp =
             (Call_Run cmd # fst (Provision_finish w st sp (planfile w st) (cmd_Run w cmd)),
              snd (Provision_finish w st sp (planfile w st) (cmd_Run w cmd)))"
  using assms
  by (auto simp: Provision_engine_def Let_def planfile_def Provision_finish_no_run
           split: option.splits sum.splits prod.splits)

lemma Provision_run:
  assumes "stream_Recv w = Inr (Request_Start st)"
    and "Call_Run cmd \<in> set (fst (Provision w))"
  shows "\<exists>md env vars.
           Start_Metadata st = Some md \<and>
           parameterLoop (Start_ParameterValues st) (engineEnv w md) [] = Inr (env, vars) \<and>
           cmd = \<lparr>Cmd_Path = t_binaryPath w,
                  Cmd_Args = engineArgs (Start_DryRun st) (planfile w st)
                               (Metadata_WorkspaceTransition md) vars,
                  Cmd_Env = env, Cmd_Dir = Start_Directory st\<rparr> \<and>
           Provision w =
             (prelude w st @ Call_Run cmd #
                fst (Provision_finish w st (statefile w st) (planfile w st) (cmd_Run w cmd)),
              snd (Provision_finish w st (statefile w st) (planfile w st) (cmd_Run w cmd)))"
proof -
  have eng: "Call_Run cmd \<in> set (fst (Provision_engine w st (statefile w st)))"
    and whole: "Provision w = (prelude w st @ fst (Provision_engine w st (statefile w st)),
                       snd (Provision_engine w st (statefile w st)))"
    using assms
    by (auto simp: Provision_def Let_def statefile_def prelude_def
             split: option.splits sum.splits if_splits)
  from Provision_engine_run [OF eng] whole show ?thesis
    by auto
qed


lemma parameterLoop_recognized:
  "list_all recognized params \<Longrightarrow>
   parameterLoop params env vars = Inr (env @ toEnvironment params, vars @ toVariables params)"
  by (induction params arbitrary: env vars)
     (auto simp: toEnvironment_def toVariables_def recognized_def split: parameterDestination.splits)

lemma parameterLoop_unrecognized:
  "\<not> list_all recognized params \<Longrightarrow> isl (parameterLoop params env vars)"
  by (induction params arbitrary: env vars)
     (auto simp: recognized_def split: parameterDestination.splits)

lemma parameterLoop_Inr:
  assumes "parameterLoop params env vars = Inr (env', vars')"
  shows "env' = env @ toEnvironment params \<and> vars' = vars @ toVariables params \<and>
     list_all recognized params"
proof -
  have r: "list_all recognized params"
    using assms parameterLoop_unrecognized [of params env vars] by auto
  from parameterLoop_recognized [OF r, of env vars] assms r show ?thesis by simp
qed

lemma parameterLoop_Inl:
  "list_all recognized before \<Longrightarrow> ParameterValue_DestinationScheme p = UnknownDestination n \<Longrightarrow>
   parameterLoop (before @ p # after) env vars =
     Inl (UnsupportedParameterType (UnknownDestination n) (ParameterValue_Name p))"
  by (induction before arbitrary: env vars)
     (auto simp: recognized_def split: parameterDestination.splits)

lemma parameters_partition:
  "list_all recognized params \<Longrightarrow>
   length (toEnvironment params) + length (toVariables params) = length params"
  by (induction params) (auto simp: toEnvironment_def toVariables_def recognized_def)

lemma childEnvironment_subset: "set (childEnvironment env) \<subseteq> set env"
  by (induction env) auto

lemma childEnvironment_last:
  "\<forall>later\<in>set after. envKey later \<noteq> envKey kv \<Longrightarrow>
   kv \<in> set (childEnvironment (before @ kv # after))"
  by (induction before) auto

lemma childEnvironment_shadowed:
  "kv \<in> set (childEnvironment env) \<Longrightarrow>
   \<exists>before after. env = before @ kv # after \<and>
      (envKey kv = None \<or> envKey kv \<notin> set (map envKey after))"
proof (induction env)
  case Nil
  then show ?case by simp
next
  case (Cons x env)
  show ?case
  proof (cases "kv = x \<and> \<not> (envKey x \<noteq> None \<and> envKey x \<in> set (map envKey env))")
    case True
    then have "x # env = [] @ kv # env \<and> (envKey kv = None \<or> envKey kv \<notin> set (map envKey env))"
      by auto
    then show ?thesis by blast
  next
    case False
    with Cons.prems have "kv \<in> set (childEnvironment env)"
      by (auto split: if_splits)
    from Cons.IH [OF this] obtain before after where
      "env = before @ kv # after" "envKey kv = None \<or> envKey kv \<notin> set (map envKey after)"
      by blast
    then have "x # env = (x # before) @ kv # after \<and>
               (envKey kv = None \<or> envKey kv \<notin> set (map envKey after))"
      by simp
    then show ?thesis by blast
  qed
qed

lemma envKey_assignment:
  "CHR ''='' \<notin> set name \<Longrightarrow> envKey (assignment name val) = Some name"
  by (auto simp: envKey_def assignment_def takeWhile_tail)

lemma toEnvironment_append:
  "toEnvironment (before @ p # after) =
     toEnvironment before @
     (if ParameterValue_DestinationScheme p = ENVIRONMENT_VARIABLE
      then [assignment (ParameterValue_Name p) (ParameterValue_Value p)] else []) @
     toEnvironment after"
  by (simp add: toEnvironment_def)

lemma toEnvironment_set:
  "set (toEnvironment params) =
     {assignment (ParameterValue_Name q) (ParameterValue_Value q) | q.
        q \<in> set params \<and> ParameterValue_DestinationScheme q = ENVIRONMENT_VARIABLE}"
  by (auto simp: toEnvironment_def)

lemma parameter_in_child:
  assumes "ParameterValue_DestinationScheme p = ENVIRONMENT_VARIABLE"
    and "\<forall>q\<in>set after. ParameterValue_DestinationScheme q = ENVIRONMENT_VARIABLE \<longrightarrow>
           envKey (assignment (ParameterValue_Name q) (ParameterValue_Value q)) \<noteq>
           envKey (assignment (ParameterValue_Name p) (ParameterValue_Value p))"
  shows "assignment (ParameterValue_Name p) (ParameterValue_Value p) \<in>
           set (childEnvironment (base @ toEnvironment (before @ p # after)))"
proof -
  have "\<forall>later\<in>set (toEnvironment after).
          envKey later \<noteq> envKey (assignment (ParameterValue_Name p) (ParameterValue_Value p))"
    using assms(2) by (auto simp: toEnvironment_set)
  from childEnvironment_last [OF this, of "base @ toEnvironment before"] assms(1)
  show ?thesis
    by (simp add: toEnvironment_append)
qed

lemma parameterLoop_error:
  "parameterLoop params env vars = Inl e \<Longrightarrow>
   \<exists>n name. e = UnsupportedParameterType (UnknownDestination n) name"
  by (induction params arbitrary: env vars) (auto split: parameterDestination.splits)

lemma Provision_initialised:
  assumes "stream_Recv w = Inr (Request_Start st)" and "initialised w st"
  shows "Provision w =
           (prelude w st @ fst (Provision_engine w st (statefile w st)),
            snd (Provision_engine w st (statefile w st)))"
  using assms
  by (auto simp: Provision_def initialised_def Let_def statefile_def prelude_def
           split: option.splits sum.splits if_splits)

lemma Provision_uninitialised:
  assumes "stream_Recv w = Inr (Request_Start st)" and "\<not> initialised w st"
  shows "(\<exists>e. snd (Provision w) = Some e \<and> e \<noteq> NilDereference) \<and>
         (\<forall>c. Call_Run c \<notin> set (fst (Provision w))) \<and>
         (\<forall>resp. Call_Send resp \<notin> set (fst (Provision w)))"
  using assms
  by (auto simp: Provision_def initialised_def Let_def statefile_def
           split: option.splits sum.splits if_splits)

lemma Provision_unrecognized:
  assumes "stream_Recv w = Inr (Request_Start st)"
    and "\<not> list_all recognized (Start_ParameterValues st)"
    and "Start_Metadata st = Some md"
  shows "(\<exists>e. snd (Provision w) = Some e \<and> e \<noteq> NilDereference) \<and>
         (\<forall>c. Call_Run c \<notin> set (fst (Provision w))) \<and>
         (\<forall>resp. Call_Send resp \<notin> set (fst (Provision w)))"
proof (cases "initialised w st")
  case False
  from Provision_uninitialised [OF assms(1) False] show ?thesis .
next
  case True
  from parameterLoop_unrecognized [OF assms(2), of "engineEnv w md" "[]"]
  obtain e where e: "parameterLoop (Start_ParameterValues st) (engineEnv w md) [] = Inl e"
    by (cases "parameterLoop (Start_ParameterValues st) (engineEnv w md) []") auto
  from parameterLoop_error [OF e] have "e \<noteq> NilDereference" by auto
  moreover have "Provision_engine w st (statefile w st) = ([], Some e)"
    using e assms(3) by (simp add: Provision_engine_def)
  ultimately show ?thesis
    using Provision_initialised [OF assms(1) True] by (auto simp: prelude_def)
qed

lemma lower_DESTROY: "strings_ToLower u ''DESTROY'' = ''destroy''"
  by code_simp

lemmas sample_defs =
  sampleWorld_def sampleStart_def sampleMetadata_def sampleEnv_def applyCommand_def
  planCommand_def statefile_def planfile_def prelude_def

lemmas session_defs =
  Provision_def Provision_engine_def Provision_finish_def engineEnv_def engineArgs_def
  assignment_def Let_def lower_DESTROY

text \<open>
  C5, as the code has it. When the engine command is run, the environment it is given is
  the base environment followed by \<open>NAME=VALUE\<close> for each parameter of scheme
  \<open>ENVIRONMENT_VARIABLE\<close>, in parameter order, and its arguments end with
  \<open>-var NAME=VALUE\<close> for each parameter of scheme \<open>PROVISIONER_VARIABLE\<close>, in parameter
  order; every parameter has one of the two schemes, and the two lists share the
  parameters out between them. The child process sees nothing that is not in the
  environment it is given, and it sees the entry of an environment parameter whenever no
  later environment parameter has the same key, which is the name when the name holds no
  \<open>=\<close>. With a parameter of any other scheme, in a request that carries its metadata, the
  session ends with an error, the engine command is never run and nothing is sent; once
  the steps before the parameters have succeeded, the handler returns the error that
  names the first such parameter.
\<close>

theorem Provision_parameters:
  assumes "stream_Recv w = Inr (Request_Start st)"
  shows "(Call_Run cmd \<in> set (fst (Provision w)) \<longrightarrow>
            (\<exists>md. Start_Metadata st = Some md \<and>
                  Cmd_Env cmd = engineEnv w md @ toEnvironment (Start_ParameterValues st) \<and>
                  Cmd_Args cmd =
                    engineArgs (Start_DryRun st) (planfile w st)
                      (Metadata_WorkspaceTransition md) [] @
                    concat (map (\<lambda>variable. [''-var'', variable])
                              (toVariables (Start_ParameterValues st)))) \<and>
            list_all recognized (Start_ParameterValues st) \<and>
            length (toEnvironment (Start_ParameterValues st)) +
              length (toVariables (Start_ParameterValues st)) =
            length (Start_ParameterValues st) \<and>
            set (childEnvironment (Cmd_Env cmd)) \<subseteq> set (Cmd_Env cmd)) \<and>
         (Call_Run cmd \<in> set (fst (Provision w)) \<and>
          Start_ParameterValues st = before @ p # after \<and>
          ParameterValue_DestinationScheme p = ENVIRONMENT_VARIABLE \<and>
          (\<forall>q\<in>set after. ParameterValue_DestinationScheme q = ENVIRONMENT_VARIABLE \<longrightarrow>
              envKey (assignment (ParameterValue_Name q) (ParameterValue_Value q)) \<noteq>
              envKey (assignment (ParameterValue_Name p) (ParameterValue_Value p))) \<longrightarrow>
            assignment (ParameterValue_Name p) (ParameterValue_Value p) \<in>
              set (childEnvironment (Cmd_Env cmd))) \<and>
         (CHR ''='' \<notin> set name \<longrightarrow> envKey (assignment name val) = Some name) \<and>
         (\<not> list_all recognized (Start_ParameterValues st) \<and> Start_Metadata st = Some md' \<longrightarrow>
            (\<exists>e. snd (Provision w) = Some e \<and> e \<noteq> NilDereference) \<and>
            (\<forall>c. Call_Run c \<notin> set (fst (Provision w))) \<and>
            (\<forall>resp. Call_Send resp \<notin> set (fst (Provision w)))) \<and>
         (initialised w st \<and> Start_ParameterValues st = before' @ p' # after' \<and>
          list_all recognized before' \<and>
          ParameterValue_DestinationScheme p' = UnknownDestination n \<and>
          Start_Metadata st = Some md' \<longrightarrow>
            Provision w =
              (prelude w st,
               Some (UnsupportedParameterType (UnknownDestination n)
                       (ParameterValue_Name p'))))"
proof -
  have run: "\<exists>md. Start_Metadata st = Some md \<and>
                  Cmd_Env c = engineEnv w md @ toEnvironment (Start_ParameterValues st) \<and>
                  Cmd_Args c =
                    engineArgs (Start_DryRun st) (planfile w st)
                      (Metadata_WorkspaceTransition md) [] @
                    concat (map (\<lambda>variable. [''-var'', variable])
                              (toVariables (Start_ParameterValues st)))"
    and known: "list_all recognized (Start_ParameterValues st)"
    if "Call_Run c \<in> set (fst (Provision w))" for c
  proof -
    from Provision_run [OF assms that] obtain md env vars where
      md: "Start_Metadata st = Some md"
      and loop: "parameterLoop (Start_ParameterValues st) (engineEnv w md) [] = Inr (env, vars)"
      and c: "c = \<lparr>Cmd_Path = t_binaryPath w,
                  Cmd_Args = engineArgs (Start_DryRun st) (planfile w st)
                               (Metadata_WorkspaceTransition md) vars,
                  Cmd_Env = env, Cmd_Dir = Start_Directory st\<rparr>"
      by blast
    from parameterLoop_Inr [OF loop] show "list_all recognized (Start_ParameterValues st)"
      by simp
    from parameterLoop_Inr [OF loop] md c
    show "\<exists>md. Start_Metadata st = Some md \<and>
                  Cmd_Env c = engineEnv w md @ toEnvironment (Start_ParameterValues st) \<and>
                  Cmd_Args c =
                    engineArgs (Start_DryRun st) (planfile w st)
                      (Metadata_WorkspaceTransition md) [] @
                    concat (map (\<lambda>variable. [''-var'', variable])
                              (toVariables (Start_ParameterValues st)))"
      by (simp add: engineArgs_def)
  qed
  have c1: "Call_Run cmd \<in> set (fst (Provision w)) \<longrightarrow>
            (\<exists>md. Start_Metadata st = Some md \<and>
                  Cmd_Env cmd = engineEnv w md @ toEnvironment (Start_ParameterValues st) \<and>
                  Cmd_Args cmd =
                    engineArgs (Start_DryRun st) (planfile w st)
                      (Metadata_WorkspaceTransition md) [] @
                    concat (map (\<lambda>variable. [''-var'', variable])
                              (toVariables (Start_ParameterValues st)))) \<and>
            list_all recognized (Start_ParameterValues st) \<and>
            length (toEnvironment (Start_ParameterValues st)) +
              length (toVariables (Start_ParameterValues st)) =
            length (Start_ParameterValues st) \<and>
            set (childEnvironment (Cmd_Env cmd)) \<subseteq> set (Cmd_Env cmd)"
    using run [of cmd] known [of cmd] parameters_partition [of "Start_ParameterValues st"]
      childEnvironment_subset [of "Cmd_Env cmd"]
    by blast
  have c2: "Call_Run cmd \<in> set (fst (Provision w)) \<and>
          Start_ParameterValues st = before @ p # after \<and>
          ParameterValue_DestinationScheme p = ENVIRONMENT_VARIABLE \<and>
          (\<forall>q\<in>set after. ParameterValue_DestinationScheme q = ENVIRONMENT_VARIABLE \<longrightarrow>
              envKey (assignment (ParameterValue_Name q) (ParameterValue_Value q)) \<noteq>
              envKey (assignment (ParameterValue_Name p) (ParameterValue_Value p))) \<longrightarrow>
            assignment (ParameterValue_Name p) (ParameterValue_Value p) \<in>
              set (childEnvironment (Cmd_Env cmd))"
  proof (intro impI, elim conjE)
    assume ran: "Call_Run cmd \<in> set (fst (Provision w))"
      and split: "Start_ParameterValues st = before @ p # after"
      and env: "ParameterValue_DestinationScheme p = ENVIRONMENT_VARIABLE"
      and last: "\<forall>q\<in>set after. ParameterValue_DestinationScheme q = ENVIRONMENT_VARIABLE \<longrightarrow>
              envKey (assignment (ParameterValue_Name q) (ParameterValue_Value q)) \<noteq>
              envKey (assignment (ParameterValue_Name p) (ParameterValue_Value p))"
    from run [OF ran] obtain md where
      "Cmd_Env cmd = engineEnv w md @ toEnvironment (Start_ParameterValues st)"
      by blast
    then show "assignment (ParameterValue_Name p) (ParameterValue_Value p) \<in>
              set (childEnvironment (Cmd_Env cmd))"
      using parameter_in_child [OF env last, of "engineEnv w md" before] split by simp
  qed
  have c3: "CHR ''='' \<notin> set name \<longrightarrow> envKey (assignment name val) = Some name"
    using envKey_assignment by blast
  have c4: "\<not> list_all recognized (Start_ParameterValues st) \<and> Start_Metadata st = Some md' \<longrightarrow>
            (\<exists>e. snd (Provision w) = Some e \<and> e \<noteq> NilDereference) \<and>
            (\<forall>c. Call_Run c \<notin> set (fst (Provision w))) \<and>
            (\<forall>resp. Call_Send resp \<notin> set (fst (Provision w)))"
    using Provision_unrecognized [OF assms] by blast
  have c5: "initialised w st \<and> Start_ParameterValues st = before' @ p' # after' \<and>
          list_all recognized before' \<and>
          ParameterValue_DestinationScheme p' = UnknownDestination n \<and>
          Start_Metadata st = Some md' \<longrightarrow>
            Provision w =
              (prelude w st,
               Some (UnsupportedParameterType (UnknownDestination n)
                       (ParameterValue_Name p')))"
  proof (intro impI, elim conjE)
    assume init: "initialised w st"
      and split: "Start_ParameterValues st = before' @ p' # after'"
      and known': "list_all recognized before'"
      and odd: "ParameterValue_DestinationScheme p' = UnknownDestination n"
      and md: "Start_Metadata st = Some md'"
    have "Provision_engine w st (statefile w st) =
            ([], Some (UnsupportedParameterType (UnknownDestination n)
                         (ParameterValue_Name p')))"
      using split md parameterLoop_Inl [OF known' odd, of after' "engineEnv w md'" "[]"]
      by (simp add: Provision_engine_def)
    with Provision_initialised [OF assms init]
    show "Provision w =
              (prelude w st,
               Some (UnsupportedParameterType (UnknownDestination n)
                       (ParameterValue_Name p')))"
      by simp
  qed
  from c1 c2 c3 c4 c5 show ?thesis
    by (intro conjI)
qed

theorem Provision_parameters_witness:
  "Call_Run applyCommand \<in> set (fst (Provision sampleWorld)) \<and>
   toEnvironment (Start_ParameterValues sampleStart) = [''REGION=eu''] \<and>
   toVariables (Start_ParameterValues sampleStart) = [''size=large'', ''zone=b''] \<and>
   (\<exists>md. Start_Metadata sampleStart = Some md \<and>
         Cmd_Env applyCommand = engineEnv sampleWorld md @ [''REGION=eu''] \<and>
         Cmd_Args applyCommand =
           engineArgs False ''/work/terraform.tfplan'' (Metadata_WorkspaceTransition md) [] @
           [''-var'', ''size=large'', ''-var'', ''zone=b'']) \<and>
   ''REGION=eu'' \<in> set (childEnvironment (Cmd_Env applyCommand)) \<and>
   Call_Run twinCommand \<in> set (fst (Provision twinWorld)) \<and>
   ''A=2'' \<in> set (childEnvironment (Cmd_Env twinCommand)) \<and>
   envKey (assignment ''REGION'' ''eu'') = Some ''REGION'' \<and>
   initialised
     (sampleWorld\<lparr>stream_Recv :=
        Inr (Request_Start
               (sampleStart\<lparr>Start_ParameterValues :=
                  Start_ParameterValues sampleStart @ [strangeParameter]\<rparr>))\<rparr>)
     (sampleStart\<lparr>Start_ParameterValues :=
        Start_ParameterValues sampleStart @ [strangeParameter]\<rparr>) \<and>
   Provision
     (sampleWorld\<lparr>stream_Recv :=
        Inr (Request_Start
               (sampleStart\<lparr>Start_ParameterValues :=
                  Start_ParameterValues sampleStart @ [strangeParameter]\<rparr>))\<rparr>) =
     ([Call_WriteFile ''/work/terraform.tfstate'' ''old'', Call_Version, Call_Init],
      Some (UnsupportedParameterType (UnknownDestination 7) ''shape'')) \<and>
   (\<forall>c. Call_Run c \<notin>
          set (fst (Provision
                      (sampleWorld\<lparr>stream_Recv :=
                         Inr (Request_Start
                                (sampleStart\<lparr>Start_ParameterValues :=
                                   Start_ParameterValues sampleStart @ [strangeParameter]\<rparr>))\<rparr>)))) \<and>
   (\<forall>resp. Call_Send resp \<notin>
          set (fst (Provision
                      (sampleWorld\<lparr>stream_Recv :=
                         Inr (Request_Start
                                (sampleStart\<lparr>Start_ParameterValues :=
                                   Start_ParameterValues sampleStart @ [strangeParameter]\<rparr>))\<rparr>))))"
proof -
  let ?st = "sampleStart\<lparr>Start_ParameterValues :=
               Start_ParameterValues sampleStart @ [strangeParameter]\<rparr>"
  let ?w = "sampleWorld\<lparr>stream_Recv := Inr (Request_Start ?st)\<rparr>"
  let ?region = "\<lparr>ParameterValue_DestinationScheme = ENVIRONMENT_VARIABLE,
                  ParameterValue_Name = ''REGION'', ParameterValue_Value = ''eu''\<rparr>"
  let ?a1 = "\<lparr>ParameterValue_DestinationScheme = ENVIRONMENT_VARIABLE,
              ParameterValue_Name = ''A'', ParameterValue_Value = ''1''\<rparr>"
  let ?a2 = "\<lparr>ParameterValue_DestinationScheme = ENVIRONMENT_VARIABLE,
              ParameterValue_Name = ''A'', ParameterValue_Value = ''2''\<rparr>"
  have run: "Call_Run applyCommand \<in> set (fst (Provision sampleWorld))"
    "Call_Run twinCommand \<in> set (fst (Provision twinWorld))"
    by (simp_all add: sample_defs session_defs twinWorld_def twinStart_def twinCommand_def)
  have lists: "toEnvironment (Start_ParameterValues sampleStart) = [''REGION=eu'']"
    "toVariables (Start_ParameterValues sampleStart) = [''size=large'', ''zone=b'']"
    by (simp_all add: toEnvironment_def toVariables_def sampleStart_def assignment_def)
  have splits: "Start_ParameterValues sampleStart =
                  [] @ ?region # tl (Start_ParameterValues sampleStart)"
    "Start_ParameterValues twinStart = [?a1] @ ?a2 # []"
    "Start_ParameterValues ?st = Start_ParameterValues sampleStart @ strangeParameter # []"
    by (simp_all add: sampleStart_def twinStart_def)
  have last: "\<forall>q\<in>set (tl (Start_ParameterValues sampleStart)).
            ParameterValue_DestinationScheme q = ENVIRONMENT_VARIABLE \<longrightarrow>
              envKey (assignment (ParameterValue_Name q) (ParameterValue_Value q)) \<noteq>
              envKey (assignment (ParameterValue_Name ?region) (ParameterValue_Value ?region))"
    by (simp add: sampleStart_def)
  have texts: "assignment ''REGION'' ''eu'' = ''REGION=eu''" "assignment ''A'' ''2'' = ''A=2''"
    "CHR ''='' \<notin> set ''REGION''"
    by (simp_all add: assignment_def)
  have strange: "\<not> list_all recognized (Start_ParameterValues ?st)"
    "list_all recognized (Start_ParameterValues sampleStart)"
    "ParameterValue_DestinationScheme strangeParameter = UnknownDestination 7"
    "ParameterValue_Name strangeParameter = ''shape''"
    "Start_Metadata ?st = Some sampleMetadata"
    by (simp_all add: sampleStart_def strangeParameter_def recognized_def)
  have recv: "stream_Recv sampleWorld = Inr (Request_Start sampleStart)"
    "stream_Recv ?w = Inr (Request_Start ?st)"
    "stream_Recv twinWorld = Inr (Request_Start twinStart)"
    by (simp_all add: sampleWorld_def twinWorld_def)
  have init: "initialised ?w ?st"
    "prelude ?w ?st =
       [Call_WriteFile ''/work/terraform.tfstate'' ''old'', Call_Version, Call_Init]"
    by (simp_all add: initialised_def sample_defs)
  note sample = Provision_parameters
        [OF recv(1), where cmd = applyCommand and before = "[]" and p = ?region
           and after = "tl (Start_ParameterValues sampleStart)"
           and name = "''REGION''" and val = "''eu''"]
  note twin = Provision_parameters
        [OF recv(3), where cmd = twinCommand and before = "[?a1]" and p = ?a2 and after = "[]"]
  note odd = Provision_parameters
        [OF recv(2), where before' = "Start_ParameterValues sampleStart"
           and p' = strangeParameter and after' = "[]" and n = 7 and md' = sampleMetadata]
  have child: "''REGION=eu'' \<in> set (childEnvironment (Cmd_Env applyCommand))"
    using sample run(1) splits(1) last texts(1) by simp
  have child': "''A=2'' \<in> set (childEnvironment (Cmd_Env twinCommand))"
    using twin run(2) splits(2) texts(2) by simp
  have key: "envKey (assignment ''REGION'' ''eu'') = Some ''REGION''"
    using sample texts(3) by simp
  have shape: "\<exists>md. Start_Metadata sampleStart = Some md \<and>
         Cmd_Env applyCommand = engineEnv sampleWorld md @ [''REGION=eu''] \<and>
         Cmd_Args applyCommand =
           engineArgs False ''/work/terraform.tfplan'' (Metadata_WorkspaceTransition md) [] @
           [''-var'', ''size=large'', ''-var'', ''zone=b'']"
    using sample run(1) lists by (simp add: planfile_def sampleWorld_def sampleStart_def)
  have failed: "Provision ?w =
     ([Call_WriteFile ''/work/terraform.tfstate'' ''old'', Call_Version, Call_Init],
      Some (UnsupportedParameterType (UnknownDestination 7) ''shape''))"
    using odd init splits(3) strange by simp
  have quiet: "(\<forall>c. Call_Run c \<notin> set (fst (Provision ?w))) \<and>
               (\<forall>resp. Call_Send resp \<notin> set (fst (Provision ?w)))"
    using odd strange(1) strange(5) by blast
  show ?thesis
    using run lists shape child child' key init(1) failed quiet by blast
qed

text \<open>
  C5 as it is stated fails where two environment parameters share a name: the request
  holds \<open>A=1\<close> and \<open>A=2\<close>, both are in the environment the command is given, and the
  child process has \<open>A=2\<close> only.
\<close>

theorem Provision_parameters_shadowed_counterexample:
  "stream_Recv twinWorld = Inr (Request_Start twinStart) \<and>
   Call_Run twinCommand \<in> set (fst (Provision twinWorld)) \<and>
   \<lparr>ParameterValue_DestinationScheme = ENVIRONMENT_VARIABLE,
    ParameterValue_Name = ''A'', ParameterValue_Value = ''1''\<rparr>
     \<in> set (Start_ParameterValues twinStart) \<and>
   childEnvironment (Cmd_Env twinCommand) =
     [''HOME=/root'', ''CODER_URL=https://coder.test'',
      ''CODER_WORKSPACE_TRANSITION=destroy'', ''CODER_WORKSPACE_NAME=dev'',
      ''CODER_WORKSPACE_OWNER=kim'', ''A=2''] \<and>
   ''A=1'' \<notin> set (childEnvironment (Cmd_Env twinCommand))"
proof -
  have "Call_Run twinCommand \<in> set (fst (Provision twinWorld))"
    by (simp add: sample_defs session_defs twinWorld_def twinStart_def twinCommand_def)
  moreover have "childEnvironment (Cmd_Env twinCommand) =
     [''HOME=/root'', ''CODER_URL=https://coder.test'',
      ''CODER_WORKSPACE_TRANSITION=destroy'', ''CODER_WORKSPACE_NAME=dev'',
      ''CODER_WORKSPACE_OWNER=kim'', ''A=2'']"
    by (simp add: twinCommand_def envKey_def)
  ultimately show ?thesis
    by (simp add: twinWorld_def twinStart_def sampleWorld_def sampleStart_def)
qed

text \<open>
  C6. The arguments of the engine command start with
  \<open>plan -no-color -input=false -json -refresh=true -out=<planfile>\<close> on a dry run and with
  \<open>apply -no-color -auto-approve -input=false -json -refresh=true\<close> otherwise; the
  transition \<open>DESTROY\<close> adds \<open>-destroy\<close> after them in both cases, and no other transition
  does; the variables follow.
\<close>

theorem Provision_arguments:
  assumes "stream_Recv w = Inr (Request_Start st)"
    and "Call_Run cmd \<in> set (fst (Provision w))"
  shows "\<exists>md. Start_Metadata st = Some md \<and>
           Cmd_Args cmd =
             (if Start_DryRun st
              then [''plan'', ''-no-color'', ''-input=false'', ''-json'', ''-refresh=true'',
                    ''-out='' @ planfile w st]
              else [''apply'', ''-no-color'', ''-auto-approve'', ''-input=false'', ''-json'',
                    ''-refresh=true'']) @
             (if Metadata_WorkspaceTransition md = DESTROY then [''-destroy''] else []) @
             concat (map (\<lambda>variable. [''-var'', variable])
                       (toVariables (Start_ParameterValues st)))"
proof -
  from Provision_run [OF assms] obtain md env vars where
    md: "Start_Metadata st = Some md"
    and loop: "parameterLoop (Start_ParameterValues st) (engineEnv w md) [] = Inr (env, vars)"
    and c: "cmd = \<lparr>Cmd_Path = t_binaryPath w,
                Cmd_Args = engineArgs (Start_DryRun st) (planfile w st)
                             (Metadata_WorkspaceTransition md) vars,
                Cmd_Env = env, Cmd_Dir = Start_Directory st\<rparr>"
    by blast
  from parameterLoop_Inr [OF loop] md c show ?thesis
    by (simp add: engineArgs_def)
qed

theorem Provision_arguments_witness:
  "Call_Run applyCommand \<in> set (fst (Provision sampleWorld)) \<and>
   Call_Run planCommand \<in>
     set (fst (Provision
                 (sampleWorld\<lparr>stream_Recv :=
                    Inr (Request_Start (sampleStart\<lparr>Start_DryRun := True\<rparr>))\<rparr>))) \<and>
   (\<exists>md. Start_Metadata sampleStart = Some md \<and>
         Cmd_Args applyCommand =
           [''apply'', ''-no-color'', ''-auto-approve'', ''-input=false'', ''-json'',
            ''-refresh=true''] @
           (if Metadata_WorkspaceTransition md = DESTROY then [''-destroy''] else []) @
           [''-var'', ''size=large'', ''-var'', ''zone=b'']) \<and>
   (\<exists>md. Start_Metadata sampleStart = Some md \<and>
         Cmd_Args planCommand =
           [''plan'', ''-no-color'', ''-input=false'', ''-json'', ''-refresh=true'',
            ''-out=/work/terraform.tfplan''] @
           (if Metadata_WorkspaceTransition md = DESTROY then [''-destroy''] else []) @
           [''-var'', ''size=large'', ''-var'', ''zone=b''])"
proof -
  let ?w = "sampleWorld\<lparr>stream_Recv :=
              Inr (Request_Start (sampleStart\<lparr>Start_DryRun := True\<rparr>))\<rparr>"
  have recv: "stream_Recv sampleWorld = Inr (Request_Start sampleStart)"
    "stream_Recv ?w = Inr (Request_Start (sampleStart\<lparr>Start_DryRun := True\<rparr>))"
    by (simp_all add: sampleWorld_def)
  have run: "Call_Run applyCommand \<in> set (fst (Provision sampleWorld))"
    "Call_Run planCommand \<in> set (fst (Provision ?w))"
    by (simp_all add: sample_defs session_defs)
  have vars: "toVariables (Start_ParameterValues sampleStart) = [''size=large'', ''zone=b'']"
    by (simp add: toVariables_def sampleStart_def assignment_def)
  show ?thesis
    using run vars Provision_arguments [OF recv(1) run(1)] Provision_arguments [OF recv(2) run(2)]
    by (simp add: sample_defs)
qed

text \<open>
  C3. On a real run whose engine command ends with an error, the handler reads the state
  file. When the read succeeds it sends one Complete whose state is the bytes read, whose
  error is the text of the command's error, not empty, and whose resource list is empty.
  When the read fails it sends nothing and returns the read error, wrapped.
\<close>

theorem Provision_apply_failure:
  assumes "stream_Recv w = Inr (Request_Start st)"
    and "\<not> Start_DryRun st"
    and "Call_Run cmd \<in> set (fst (Provision w))"
    and "cmd_Run w cmd = Some err"
    and "err \<noteq> []"
  shows "(os_ReadFile w (statefile w st) = Inr content \<longrightarrow>
            (\<exists>c. Provision w =
                   (prelude w st @
                      [Call_Run cmd, Call_ReadFile (statefile w st),
                       Call_Send (Response_Complete c)],
                    map_option Foreign (stream_Send w (Response_Complete c))) \<and>
                 Complete_State c = content \<and> Complete_Error c = err \<and>
                 Complete_Error c \<noteq> [] \<and> len (Complete_Resources c) = 0)) \<and>
         (os_ReadFile w (statefile w st) = Inl readErr \<longrightarrow>
            Provision w =
              (prelude w st @ [Call_Run cmd, Call_ReadFile (statefile w st)],
               Some (ReadFile (statefile w st) readErr)))"
proof -
  from Provision_run [OF assms(1) assms(3)]
  have "Provision w =
          (prelude w st @ Call_Run cmd #
             fst (Provision_finish w st (statefile w st) (planfile w st) (Some err)),
           snd (Provision_finish w st (statefile w st) (planfile w st) (Some err)))"
    using assms(4) by auto
  then show ?thesis
    using assms(2) assms(5) by (auto simp: Provision_finish_def Let_def len_def)
qed

theorem Provision_apply_failure_witness:
  "(\<exists>c. Provision (sampleWorld\<lparr>cmd_Run := \<lambda>cmd. Some ''exit status 1''\<rparr>) =
          ([Call_WriteFile ''/work/terraform.tfstate'' ''old'', Call_Version, Call_Init,
            Call_Run applyCommand, Call_ReadFile ''/work/terraform.tfstate'',
            Call_Send (Response_Complete c)], None) \<and>
        Complete_State c = ''new'' \<and> Complete_Error c = ''exit status 1'' \<and>
        len (Complete_Resources c) = 0) \<and>
   Provision (sampleWorld\<lparr>cmd_Run := \<lambda>cmd. Some ''exit status 1'',
                            os_ReadFile := \<lambda>path. Inl ''no such file''\<rparr>) =
     ([Call_WriteFile ''/work/terraform.tfstate'' ''old'', Call_Version, Call_Init,
       Call_Run applyCommand, Call_ReadFile ''/work/terraform.tfstate''],
      Some (ReadFile ''/work/terraform.tfstate'' ''no such file''))"
proof -
  let ?w = "sampleWorld\<lparr>cmd_Run := \<lambda>cmd. Some ''exit status 1''\<rparr>"
  let ?v = "sampleWorld\<lparr>cmd_Run := \<lambda>cmd. Some ''exit status 1'',
                         os_ReadFile := \<lambda>path. Inl ''no such file''\<rparr>"
  have recv: "stream_Recv ?w = Inr (Request_Start sampleStart)"
    "stream_Recv ?v = Inr (Request_Start sampleStart)"
    by (simp_all add: sampleWorld_def)
  have real: "\<not> Start_DryRun sampleStart"
    by (simp add: sampleStart_def)
  have run: "Call_Run applyCommand \<in> set (fst (Provision ?w))"
    "Call_Run applyCommand \<in> set (fst (Provision ?v))"
    by (simp_all add: sample_defs session_defs)
  have failed: "cmd_Run ?w applyCommand = Some ''exit status 1''"
    "cmd_Run ?v applyCommand = Some ''exit status 1''" "''exit status 1'' \<noteq> []"
    by simp_all
  have files: "os_ReadFile ?w (statefile ?w sampleStart) = Inr ''new''"
    "os_ReadFile ?v (statefile ?v sampleStart) = Inl ''no such file''"
    by (simp_all add: sampleWorld_def)
  have calls:
    "prelude ?w sampleStart =
       [Call_WriteFile ''/work/terraform.tfstate'' ''old'', Call_Version, Call_Init]"
    "prelude ?v sampleStart =
       [Call_WriteFile ''/work/terraform.tfstate'' ''old'', Call_Version, Call_Init]"
    "statefile ?w sampleStart = ''/work/terraform.tfstate''"
    "statefile ?v sampleStart = ''/work/terraform.tfstate''"
    "stream_Send ?w = (\<lambda>resp. None)"
    by (simp_all add: sample_defs)
  show ?thesis
    using files calls
      Provision_apply_failure
        [OF recv(1) real run(1) failed(1) failed(3), where content = "''new''"]
      Provision_apply_failure
        [OF recv(2) real run(2) failed(2) failed(3), where readErr = "''no such file''"]
    by auto
qed

text \<open>
  C4. On a dry run whose engine command ends with an error, the handler sends one Complete
  with an empty resource list, no state and the text of the command's error, not empty,
  when the shutdown signal has fired, and what it returns is what the send returns. When
  the signal has not fired it sends nothing and returns the command's error, wrapped.
\<close>

theorem Provision_plan_failure:
  assumes "stream_Recv w = Inr (Request_Start st)"
    and "Start_DryRun st"
    and "Call_Run cmd \<in> set (fst (Provision w))"
    and "cmd_Run w cmd = Some err"
    and "err \<noteq> []"
  shows "(shutdown_Err w \<longrightarrow>
            (\<exists>c. Provision w =
                   (prelude w st @ [Call_Run cmd, Call_Send (Response_Complete c)],
                    map_option Foreign (stream_Send w (Response_Complete c))) \<and>
                 len (Complete_Resources c) = 0 \<and> Complete_State c = [] \<and>
                 Complete_Error c = err \<and> Complete_Error c \<noteq> [])) \<and>
         (\<not> shutdown_Err w \<longrightarrow>
            Provision w = (prelude w st @ [Call_Run cmd], Some (PlanTerraform err)))"
proof -
  from Provision_run [OF assms(1) assms(3)]
  have "Provision w =
          (prelude w st @ Call_Run cmd #
             fst (Provision_finish w st (statefile w st) (planfile w st) (Some err)),
           snd (Provision_finish w st (statefile w st) (planfile w st) (Some err)))"
    using assms(4) by auto
  then show ?thesis
    using assms(2) assms(5) by (auto simp: Provision_finish_def Let_def len_def)
qed

theorem Provision_plan_failure_witness:
  "(\<exists>c. Provision
          (sampleWorld\<lparr>stream_Recv := Inr (Request_Start (sampleStart\<lparr>Start_DryRun := True\<rparr>)),
                       cmd_Run := \<lambda>cmd. Some ''signal: interrupt'',
                       shutdown_Err := True\<rparr>) =
          ([Call_WriteFile ''/work/terraform.tfstate'' ''old'', Call_Version, Call_Init,
            Call_Run planCommand, Call_Send (Response_Complete c)], None) \<and>
        len (Complete_Resources c) = 0 \<and> Complete_State c = [] \<and>
        Complete_Error c = ''signal: interrupt'') \<and>
   Provision
     (sampleWorld\<lparr>stream_Recv := Inr (Request_Start (sampleStart\<lparr>Start_DryRun := True\<rparr>)),
                  cmd_Run := \<lambda>cmd. Some ''exit status 1''\<rparr>) =
     ([Call_WriteFile ''/work/terraform.tfstate'' ''old'', Call_Version, Call_Init,
       Call_Run planCommand], Some (PlanTerraform ''exit status 1''))"
proof -
  let ?st = "sampleStart\<lparr>Start_DryRun := True\<rparr>"
  let ?w = "sampleWorld\<lparr>stream_Recv := Inr (Request_Start ?st),
                         cmd_Run := \<lambda>cmd. Some ''signal: interrupt'',
                         shutdown_Err := True\<rparr>"
  let ?v = "sampleWorld\<lparr>stream_Recv := Inr (Request_Start ?st),
                         cmd_Run := \<lambda>cmd. Some ''exit status 1''\<rparr>"
  have recv: "stream_Recv ?w = Inr (Request_Start ?st)"
    "stream_Recv ?v = Inr (Request_Start ?st)"
    by simp_all
  have dry: "Start_DryRun ?st"
    by simp
  have run: "Call_Run planCommand \<in> set (fst (Provision ?w))"
    "Call_Run planCommand \<in> set (fst (Provision ?v))"
    by (simp_all add: sample_defs session_defs)
  have failed: "cmd_Run ?w planCommand = Some ''signal: interrupt''"
    "cmd_Run ?v planCommand = Some ''exit status 1''"
    "''signal: interrupt'' \<noteq> []" "''exit status 1'' \<noteq> []"
    by simp_all
  have signal: "shutdown_Err ?w" "\<not> shutdown_Err ?v"
    by (simp_all add: sampleWorld_def)
  have calls:
    "prelude ?w ?st =
       [Call_WriteFile ''/work/terraform.tfstate'' ''old'', Call_Version, Call_Init]"
    "prelude ?v ?st =
       [Call_WriteFile ''/work/terraform.tfstate'' ''old'', Call_Version, Call_Init]"
    "stream_Send ?w = (\<lambda>resp. None)"
    by (simp_all add: sample_defs)
  show ?thesis
    using signal calls
      Provision_plan_failure [OF recv(1) dry run(1) failed(1) failed(3)]
      Provision_plan_failure [OF recv(2) dry run(2) failed(2) failed(4)]
    by auto
qed

text \<open>
  C9. On the apply path, a state without a values section gives a Complete whose state is
  the bytes of the state file and whose resource list is empty and not nil. The handler
  asks for the state file and its parsed form and for nothing else, so the graph is never
  requested, and no answer of the graph, of its parser or of the attribute decoder changes
  the result.
\<close>

theorem parseTerraformApply_no_values:
  assumes "os_ReadFile w path = Inr content"
    and "tf_ShowStateFile w path = Inr s"
    and "State_Values s = None"
  shows "parseTerraformApply w path =
           ([Call_ReadFile path, Call_ShowStateFile path],
            Inr (Response_Complete
                   \<lparr>Complete_State = content, Complete_Error = [],
                    Complete_Resources = Some []\<rparr>)) \<and>
         (stream_Recv w = Inr (Request_Start st) \<and> \<not> Start_DryRun st \<and>
          path = statefile w st \<and>
          Call_Run cmd \<in> set (fst (Provision w)) \<and> cmd_Run w cmd = None \<longrightarrow>
            Provision w =
              (prelude w st @
                 [Call_Run cmd, Call_ReadFile path, Call_ShowStateFile path,
                  Call_Send (Response_Complete
                               \<lparr>Complete_State = content, Complete_Error = [],
                                Complete_Resources = Some []\<rparr>)],
               map_option Foreign
                 (stream_Send w (Response_Complete
                                   \<lparr>Complete_State = content, Complete_Error = [],
                                    Complete_Resources = Some []\<rparr>))) \<and>
            Call_Graph \<notin> set (fst (Provision w)))"
proof -
  have parse: "parseTerraformApply w path =
           ([Call_ReadFile path, Call_ShowStateFile path],
            Inr (Response_Complete
                   \<lparr>Complete_State = content, Complete_Error = [],
                    Complete_Resources = Some []\<rparr>))"
    using assms by (simp add: parseTerraformApply_def)
  have "Provision w =
              (prelude w st @
                 [Call_Run cmd, Call_ReadFile path, Call_ShowStateFile path,
                  Call_Send (Response_Complete
                               \<lparr>Complete_State = content, Complete_Error = [],
                                Complete_Resources = Some []\<rparr>)],
               map_option Foreign
                 (stream_Send w (Response_Complete
                                   \<lparr>Complete_State = content, Complete_Error = [],
                                    Complete_Resources = Some []\<rparr>)))"
    if "stream_Recv w = Inr (Request_Start st)" "\<not> Start_DryRun st"
      "path = statefile w st"
      "Call_Run cmd \<in> set (fst (Provision w))" "cmd_Run w cmd = None"
  proof -
    from Provision_run [OF that(1) that(4)]
    have "Provision w =
          (prelude w st @ Call_Run cmd #
             fst (Provision_finish w st (statefile w st) (planfile w st) None),
           snd (Provision_finish w st (statefile w st) (planfile w st) None))"
      using that(5) by auto
    then show ?thesis
      using that(2) that(3) parse by (simp add: Provision_finish_def)
  qed
  then show ?thesis
    using parse by (auto simp: prelude_def)
qed

theorem parseTerraformApply_no_values_witness:
  "parseTerraformApply
     (sampleWorld\<lparr>tf_ShowStateFile := \<lambda>path. Inr \<lparr>State_Values = None\<rparr>,
                  tf_Graph := Inl ''no graph''\<rparr>)
     ''/work/terraform.tfstate'' =
     ([Call_ReadFile ''/work/terraform.tfstate'', Call_ShowStateFile ''/work/terraform.tfstate''],
      Inr (Response_Complete
             \<lparr>Complete_State = ''new'', Complete_Error = [], Complete_Resources = Some []\<rparr>)) \<and>
   Provision
     (sampleWorld\<lparr>tf_ShowStateFile := \<lambda>path. Inr \<lparr>State_Values = None\<rparr>,
                  tf_Graph := Inl ''no graph''\<rparr>) =
     ([Call_WriteFile ''/work/terraform.tfstate'' ''old'', Call_Version, Call_Init,
       Call_Run applyCommand, Call_ReadFile ''/work/terraform.tfstate'',
       Call_ShowStateFile ''/work/terraform.tfstate'',
       Call_Send (Response_Complete
                    \<lparr>Complete_State = ''new'', Complete_Error = [],
                     Complete_Resources = Some []\<rparr>)], None)"
proof -
  let ?w = "sampleWorld\<lparr>tf_ShowStateFile := \<lambda>path. Inr \<lparr>State_Values = None\<rparr>,
                         tf_Graph := Inl ''no graph''\<rparr>"
  have files: "os_ReadFile ?w ''/work/terraform.tfstate'' = Inr ''new''"
    "tf_ShowStateFile ?w ''/work/terraform.tfstate'' = Inr \<lparr>State_Values = None\<rparr>"
    "State_Values \<lparr>State_Values = (None :: agentAttributes stateValues option)\<rparr> = None"
    by (simp_all add: sampleWorld_def)
  have session: "stream_Recv ?w = Inr (Request_Start sampleStart)"
    "\<not> Start_DryRun sampleStart" "cmd_Run ?w applyCommand = None"
    by (simp_all add: sampleWorld_def sampleStart_def)
  have run: "Call_Run applyCommand \<in> set (fst (Provision ?w))"
    by (simp add: sample_defs session_defs parseTerraformApply_def)
  have calls:
    "prelude ?w sampleStart =
       [Call_WriteFile ''/work/terraform.tfstate'' ''old'', Call_Version, Call_Init]"
    "statefile ?w sampleStart = ''/work/terraform.tfstate''"
    "stream_Send ?w = (\<lambda>resp. None)"
    by (simp_all add: sample_defs)
  show ?thesis
    using session run calls
      parseTerraformApply_no_values [OF files, where cmd = applyCommand and st = sampleStart]
    by auto
qed

subsection \<open>The dependency graph in the session\<close>

lemma Provision_ran:
  assumes "stream_Recv w = Inr (Request_Start st)"
    and "Call_Run cmd \<in> set (fst (Provision w))"
  shows "Provision w =
           (prelude w st @ Call_Run cmd #
              fst (Provision_finish w st (statefile w st) (planfile w st) (cmd_Run w cmd)),
            snd (Provision_finish w st (statefile w st) (planfile w st) (cmd_Run w cmd)))"
  using Provision_run [OF assms] by blast

lemma parseTerraformPlan_graph_error:
  assumes "tf_ShowPlanFile w path = Inr p" and "tf_Graph w = Inr rawGraph"
    and "findDirectDependencies (lib_ParseString w) (lib_NewAnalysedGraph w) rawGraph = Inl e"
  shows "parseTerraformPlan w path =
           ([Call_ShowPlanFile path, Call_Graph], Inl (FindDependencies e))"
  using assms by (simp add: parseTerraformPlan_def)

lemma parseTerraformApply_graph_error:
  assumes "os_ReadFile w path = Inr content" and "tf_ShowStateFile w path = Inr s"
    and "State_Values s = Some vals" and "tf_Graph w = Inr rawGraph"
    and "findDirectDependencies (lib_ParseString w) (lib_NewAnalysedGraph w) rawGraph = Inl e"
  shows "parseTerraformApply w path =
           ([Call_ReadFile path, Call_ShowStateFile path, Call_Graph],
            Inl (FindDependencies e))"
  using assms by (simp add: parseTerraformApply_def)

lemma Provision_graph_error:
  assumes "stream_Recv w = Inr (Request_Start st)"
    and "Call_Run cmd \<in> set (fst (Provision w))"
    and "cmd_Run w cmd = None"
    and "tf_Graph w = Inr rawGraph"
    and "findDirectDependencies (lib_ParseString w) (lib_NewAnalysedGraph w) rawGraph = Inl e"
  shows "(Start_DryRun st \<and> tf_ShowPlanFile w (planfile w st) = Inr p \<longrightarrow>
            Provision w =
              (prelude w st @
                 [Call_Run cmd, Call_ShowPlanFile (planfile w st), Call_Graph],
               Some (FindDependencies e))) \<and>
         (\<not> Start_DryRun st \<and> os_ReadFile w (statefile w st) = Inr content \<and>
          tf_ShowStateFile w (statefile w st) = Inr s \<and> State_Values s = Some vals \<longrightarrow>
            Provision w =
              (prelude w st @
                 [Call_Run cmd, Call_ReadFile (statefile w st),
                  Call_ShowStateFile (statefile w st), Call_Graph],
               Some (FindDependencies e)))"
  using Provision_ran [OF assms(1) assms(2)] assms(3)
    parseTerraformPlan_graph_error [OF _ assms(4) assms(5), of "planfile w st" p]
    parseTerraformApply_graph_error [OF _ _ _ assms(4) assms(5), of "statefile w st" content s vals]
  by (auto simp: Provision_finish_def)

text \<open>
  C2, as the code has it. Malformed graph text makes the graph walk return an error and no
  map, and a session that asks for the graph (a dry run, or a real run whose state has a
  values section) then ends with that error, wrapped, right after the graph request and
  without sending a Complete. Otherwise the map has exactly one entry for each stripped
  label that a node carries. The value of the entry is the list of the stripped labels of
  the nodes one edge away, outbound or inbound alike and unlabeled neighbours left out, of
  the last node in node order that carries the label: of the node itself whenever no later
  node shares its label.
\<close>

theorem findDirectDependencies_entries:
  "(ParseString rawGraph = Inl err \<longrightarrow>
      findDirectDependencies ParseString NewAnalysedGraph rawGraph = Inl (ParseGraph err)) \<and>
   (ParseString rawGraph = Inr ast \<and> NewAnalysedGraph ast = Inl err \<longrightarrow>
      findDirectDependencies ParseString NewAnalysedGraph rawGraph = Inl (AnalyzeGraph err)) \<and>
   (ParseString rawGraph = Inr ast \<and> NewAnalysedGraph ast = Inr g \<longrightarrow>
      (\<exists>direct.
         findDirectDependencies ParseString NewAnalysedGraph rawGraph = Inr direct \<and>
         dom direct = {k. \<exists>n\<in>set (Nodes_Nodes g). nodeLabel n = Some k} \<and>
         (\<forall>before n after k.
            Nodes_Nodes g = before @ n # after \<and> nodeLabel n = Some k \<and>
            (\<forall>m\<in>set after. nodeLabel m \<noteq> Some k) \<longrightarrow>
              direct k = Some (dependencies g n) \<and>
              set (dependencies g n) =
                {l. \<exists>m\<in>adjacent g n. \<exists>d. Nodes_Lookup g m = Some d \<and>
                                            nodeLabel d = Some l}))) \<and>
   (tf_Graph w = Inr dot \<and>
    findDirectDependencies (lib_ParseString w) (lib_NewAnalysedGraph w) dot = Inl e \<longrightarrow>
      (tf_ShowPlanFile w path = Inr p \<longrightarrow>
         parseTerraformPlan w path =
           ([Call_ShowPlanFile path, Call_Graph], Inl (FindDependencies e))) \<and>
      (os_ReadFile w path = Inr content \<and> tf_ShowStateFile w path = Inr s \<and>
       State_Values s = Some vals \<longrightarrow>
         parseTerraformApply w path =
           ([Call_ReadFile path, Call_ShowStateFile path, Call_Graph],
            Inl (FindDependencies e))) \<and>
      (stream_Recv w = Inr (Request_Start st) \<and> Call_Run cmd \<in> set (fst (Provision w)) \<and>
       cmd_Run w cmd = None \<and> Start_DryRun st \<and>
       tf_ShowPlanFile w (planfile w st) = Inr p \<longrightarrow>
         Provision w =
           (prelude w st @ [Call_Run cmd, Call_ShowPlanFile (planfile w st), Call_Graph],
            Some (FindDependencies e))) \<and>
      (stream_Recv w = Inr (Request_Start st) \<and> Call_Run cmd \<in> set (fst (Provision w)) \<and>
       cmd_Run w cmd = None \<and> \<not> Start_DryRun st \<and>
       os_ReadFile w (statefile w st) = Inr content \<and>
       tf_ShowStateFile w (statefile w st) = Inr s \<and> State_Values s = Some vals \<longrightarrow>
         Provision w =
           (prelude w st @
              [Call_Run cmd, Call_ReadFile (statefile w st),
               Call_ShowStateFile (statefile w st), Call_Graph],
            Some (FindDependencies e))))"
proof -
  have "findDirectDependencies ParseString NewAnalysedGraph rawGraph =
          Inr (directLoop g (Nodes_Nodes g) Map.empty) \<and>
        dom (directLoop g (Nodes_Nodes g) Map.empty) =
          {k. \<exists>n\<in>set (Nodes_Nodes g). nodeLabel n = Some k} \<and>
        (\<forall>before n after k.
            Nodes_Nodes g = before @ n # after \<and> nodeLabel n = Some k \<and>
            (\<forall>m\<in>set after. nodeLabel m \<noteq> Some k) \<longrightarrow>
              directLoop g (Nodes_Nodes g) Map.empty k = Some (dependencies g n) \<and>
              set (dependencies g n) =
                {l. \<exists>m\<in>adjacent g n. \<exists>d. Nodes_Lookup g m = Some d \<and>
                                            nodeLabel d = Some l})"
    if "ParseString rawGraph = Inr ast" "NewAnalysedGraph ast = Inr g"
    using that
      findDirectDependencies_parsed
        [where ParseString = ParseString and NewAnalysedGraph = NewAnalysedGraph
           and rawGraph = rawGraph and ast = ast and g = g]
    by (simp add: directLoop_dom directLoop_last dependencies_set)
  then have parsed:
    "ParseString rawGraph = Inr ast \<and> NewAnalysedGraph ast = Inr g \<longrightarrow>
      (\<exists>direct.
         findDirectDependencies ParseString NewAnalysedGraph rawGraph = Inr direct \<and>
         dom direct = {k. \<exists>n\<in>set (Nodes_Nodes g). nodeLabel n = Some k} \<and>
         (\<forall>before n after k.
            Nodes_Nodes g = before @ n # after \<and> nodeLabel n = Some k \<and>
            (\<forall>m\<in>set after. nodeLabel m \<noteq> Some k) \<longrightarrow>
              direct k = Some (dependencies g n) \<and>
              set (dependencies g n) =
                {l. \<exists>m\<in>adjacent g n. \<exists>d. Nodes_Lookup g m = Some d \<and>
                                            nodeLabel d = Some l}))"
    by blast
  have malformed:
    "ParseString rawGraph = Inl err \<longrightarrow>
      findDirectDependencies ParseString NewAnalysedGraph rawGraph = Inl (ParseGraph err)"
    "ParseString rawGraph = Inr ast \<and> NewAnalysedGraph ast = Inl err \<longrightarrow>
      findDirectDependencies ParseString NewAnalysedGraph rawGraph = Inl (AnalyzeGraph err)"
    by (simp_all add: findDirectDependencies_def)
  have fatal:
    "tf_Graph w = Inr dot \<and>
    findDirectDependencies (lib_ParseString w) (lib_NewAnalysedGraph w) dot = Inl e \<longrightarrow>
      (tf_ShowPlanFile w path = Inr p \<longrightarrow>
         parseTerraformPlan w path =
           ([Call_ShowPlanFile path, Call_Graph], Inl (FindDependencies e))) \<and>
      (os_ReadFile w path = Inr content \<and> tf_ShowStateFile w path = Inr s \<and>
       State_Values s = Some vals \<longrightarrow>
         parseTerraformApply w path =
           ([Call_ReadFile path, Call_ShowStateFile path, Call_Graph],
            Inl (FindDependencies e))) \<and>
      (stream_Recv w = Inr (Request_Start st) \<and> Call_Run cmd \<in> set (fst (Provision w)) \<and>
       cmd_Run w cmd = None \<and> Start_DryRun st \<and>
       tf_ShowPlanFile w (planfile w st) = Inr p \<longrightarrow>
         Provision w =
           (prelude w st @ [Call_Run cmd, Call_ShowPlanFile (planfile w st), Call_Graph],
            Some (FindDependencies e))) \<and>
      (stream_Recv w = Inr (Request_Start st) \<and> Call_Run cmd \<in> set (fst (Provision w)) \<and>
       cmd_Run w cmd = None \<and> \<not> Start_DryRun st \<and>
       os_ReadFile w (statefile w st) = Inr content \<and>
       tf_ShowStateFile w (statefile w st) = Inr s \<and> State_Values s = Some vals \<longrightarrow>
         Provision w =
           (prelude w st @
              [Call_Run cmd, Call_ReadFile (statefile w st),
               Call_ShowStateFile (statefile w st), Call_Graph],
            Some (FindDependencies e)))"
    using parseTerraformPlan_graph_error [of w path p dot e]
      parseTerraformApply_graph_error [of w path content s vals dot e]
      Provision_graph_error [of w st cmd dot e p content s vals]
    by blast
  from malformed parsed fatal show ?thesis
    by (intro conjI)
qed

theorem findDirectDependencies_entries_witness:
  "findDirectDependencies (\<lambda>raw. Inl ''syntax error'') (\<lambda>ast :: unit. Inr sampleGraph)
      ''digraph {'' = Inl (ParseGraph ''syntax error'') \<and>
   (case findDirectDependencies (\<lambda>raw. Inr ()) (\<lambda>ast. Inr sampleGraph) sampleDot of
      Inl err \<Rightarrow> None
    | Inr direct \<Rightarrow> direct ''null_resource.web'') = Some [''coder_agent.dev''] \<and>
   Provision (sampleWorld\<lparr>lib_ParseString := \<lambda>raw. Inl ''syntax error''\<rparr>) =
     ([Call_WriteFile ''/work/terraform.tfstate'' ''old'', Call_Version, Call_Init,
       Call_Run applyCommand, Call_ReadFile ''/work/terraform.tfstate'',
       Call_ShowStateFile ''/work/terraform.tfstate'', Call_Graph],
      Some (FindDependencies (ParseGraph ''syntax error''))) \<and>
   Provision
     (sampleWorld\<lparr>lib_ParseString := \<lambda>raw. Inl ''syntax error'',
                  stream_Recv := Inr (Request_Start (sampleStart\<lparr>Start_DryRun := True\<rparr>))\<rparr>) =
     ([Call_WriteFile ''/work/terraform.tfstate'' ''old'', Call_Version, Call_Init,
       Call_Run planCommand, Call_ShowPlanFile ''/work/terraform.tfplan'', Call_Graph],
      Some (FindDependencies (ParseGraph ''syntax error'')))"
proof -
  let ?w = "sampleWorld\<lparr>lib_ParseString := \<lambda>raw. Inl ''syntax error''\<rparr>"
  let ?d = "sampleStart\<lparr>Start_DryRun := True\<rparr>"
  let ?v = "sampleWorld\<lparr>lib_ParseString := \<lambda>raw. Inl ''syntax error'',
                         stream_Recv := Inr (Request_Start ?d)\<rparr>"
  have bad: "findDirectDependencies (\<lambda>raw. Inl ''syntax error'')
               (\<lambda>ast :: unit. Inr sampleGraph) ''digraph {'' = Inl (ParseGraph ''syntax error'')"
    using findDirectDependencies_entries
      [where ParseString = "\<lambda>raw. Inl ''syntax error''" and rawGraph = "''digraph {''"
         and NewAnalysedGraph = "\<lambda>ast :: unit. Inr sampleGraph" and err = "''syntax error''",
         THEN conjunct1]
    by simp
  from findDirectDependencies_entries
      [where ParseString = "\<lambda>raw. Inr ()" and rawGraph = "sampleDot"
         and NewAnalysedGraph = "\<lambda>ast. Inr sampleGraph" and ast = "()" and g = sampleGraph,
         THEN conjunct2, THEN conjunct2, THEN conjunct1]
  obtain direct where
    d: "findDirectDependencies (\<lambda>raw. Inr ()) (\<lambda>ast. Inr sampleGraph) sampleDot =
          Inr direct"
    and last: "\<And>before n after k.
            Nodes_Nodes sampleGraph = before @ n # after \<Longrightarrow> nodeLabel n = Some k \<Longrightarrow>
            (\<forall>m\<in>set after. nodeLabel m \<noteq> Some k) \<Longrightarrow>
              direct k = Some (dependencies sampleGraph n)"
    by auto
  have "direct ''null_resource.web'' = Some (dependencies sampleGraph webNode)"
    by (rule last [of "[]" webNode "[devNode, rootNode]"]) (simp_all add: graph_defs)
  then have good: "direct ''null_resource.web'' = Some [''coder_agent.dev'']"
    by (simp add: graph_defs)
  have dot: "tf_Graph ?w = Inr sampleDot" "tf_Graph ?v = Inr sampleDot"
    "lib_ParseString ?w sampleDot = Inl ''syntax error''"
    "lib_ParseString ?v sampleDot = Inl ''syntax error''"
    by (simp_all add: sampleWorld_def)
  have broken:
    "findDirectDependencies (lib_ParseString ?w) (lib_NewAnalysedGraph ?w) sampleDot =
       Inl (ParseGraph ''syntax error'')"
    "findDirectDependencies (lib_ParseString ?v) (lib_NewAnalysedGraph ?v) sampleDot =
       Inl (ParseGraph ''syntax error'')"
    using dot(3)
      findDirectDependencies_entries
        [where ParseString = "lib_ParseString ?w" and rawGraph = sampleDot
           and NewAnalysedGraph = "lib_NewAnalysedGraph ?w" and err = "''syntax error''",
         THEN conjunct1]
      findDirectDependencies_entries
        [where ParseString = "lib_ParseString ?v" and rawGraph = sampleDot
           and NewAnalysedGraph = "lib_NewAnalysedGraph ?v" and err = "''syntax error''",
         THEN conjunct1]
    by simp_all
  have session: "stream_Recv ?w = Inr (Request_Start sampleStart)"
    "stream_Recv ?v = Inr (Request_Start ?d)"
    "cmd_Run ?w applyCommand = None" "cmd_Run ?v planCommand = None"
    "\<not> Start_DryRun sampleStart" "Start_DryRun ?d"
    by (simp_all add: sampleWorld_def sampleStart_def)
  have run: "Call_Run applyCommand \<in> set (fst (Provision ?w))"
    "Call_Run planCommand \<in> set (fst (Provision ?v))"
    by (simp_all add: sample_defs session_defs parseTerraformApply_def parseTerraformPlan_def)
  have files: "os_ReadFile ?w (statefile ?w sampleStart) = Inr ''new''"
    "tf_ShowStateFile ?w (statefile ?w sampleStart) = Inr sampleState"
    "State_Values sampleState =
       Some \<lparr>StateValues_RootModule = Some \<lparr>StateModule_Resources = sampleListing\<rparr>\<rparr>"
    "tf_ShowPlanFile ?v (planfile ?v ?d) = Inr samplePlan"
    by (simp_all add: sampleWorld_def sampleState_def)
  have calls:
    "prelude ?w sampleStart =
       [Call_WriteFile ''/work/terraform.tfstate'' ''old'', Call_Version, Call_Init]"
    "prelude ?v ?d =
       [Call_WriteFile ''/work/terraform.tfstate'' ''old'', Call_Version, Call_Init]"
    "statefile ?w sampleStart = ''/work/terraform.tfstate''"
    "planfile ?v ?d = ''/work/terraform.tfplan''"
    by (simp_all add: sample_defs)
  have real: "Provision ?w =
     ([Call_WriteFile ''/work/terraform.tfstate'' ''old'', Call_Version, Call_Init,
       Call_Run applyCommand, Call_ReadFile ''/work/terraform.tfstate'',
       Call_ShowStateFile ''/work/terraform.tfstate'', Call_Graph],
      Some (FindDependencies (ParseGraph ''syntax error'')))"
    using dot(1) broken(1) session(1,3,5) run(1) files(1,2,3) calls(1,3)
      findDirectDependencies_entries
        [where w = ?w and dot = sampleDot and e = "ParseGraph ''syntax error''"
           and st = sampleStart and cmd = applyCommand and content = "''new''"
           and s = sampleState and path = "''/work/terraform.tfstate''" and p = samplePlan
           and vals = "\<lparr>StateValues_RootModule =
                           Some \<lparr>StateModule_Resources = sampleListing\<rparr>\<rparr>",
         THEN conjunct2, THEN conjunct2, THEN conjunct2]
    by simp
  have dry: "Provision ?v =
     ([Call_WriteFile ''/work/terraform.tfstate'' ''old'', Call_Version, Call_Init,
       Call_Run planCommand, Call_ShowPlanFile ''/work/terraform.tfplan'', Call_Graph],
      Some (FindDependencies (ParseGraph ''syntax error'')))"
    using dot(2) broken(2) session(2,4,6) run(2) files(4) calls(2,4)
      findDirectDependencies_entries
        [where w = ?v and dot = sampleDot and e = "ParseGraph ''syntax error''"
           and st = ?d and cmd = planCommand and p = samplePlan
           and path = "''/work/terraform.tfplan''" and content = "''new''"
           and s = sampleState and vals = "\<lparr>StateValues_RootModule = None\<rparr>",
         THEN conjunct2, THEN conjunct2, THEN conjunct2]
    by simp
  from d bad good real dry show ?thesis
    by simp
qed

text \<open>
  C2 as it is stated fails where two nodes share a label: the node \<open>first\<close> carries the
  label \<open>x\<close> and is one edge away from the node labelled \<open>c\<close>, yet the entry of \<open>x\<close> is
  the empty list, that of the node \<open>second\<close>.
\<close>

theorem findDirectDependencies_shared_label_counterexample:
  "firstNode \<in> set (Nodes_Nodes clashGraph) \<and>
   nodeLabel firstNode = Some ''x'' \<and>
   dependencies clashGraph firstNode = [''c''] \<and>
   (case findDirectDependencies (\<lambda>raw. Inr ()) (\<lambda>ast. Inr clashGraph) clashDot of
      Inl err \<Rightarrow> None
    | Inr direct \<Rightarrow> direct ''x'') = Some []"
  by (simp add: findDirectDependencies_def graph_defs)

end
